theory Spec2Isabelle
  imports Complex_Main
begin

section \<open>The NGSim lane-change scenario (ngsim/scenario.py)\<close>

text \<open>
  A shallow embedding of \<^verbatim>\<open>NGSimLaneChangeScenario\<close>. Python floats are modelled as
  \<^typ>\<open>real\<close> (no rounding), Python ints as \<^typ>\<open>int\<close>. Exceptions are values of the
  type \<open>error\<close>; a method that mutates the object takes the object and returns the
  updated one.
\<close>

subsection \<open>Data\<close>

datatype DatasetMode = TRAIN | VALIDATION

text \<open>Only \<^verbatim>\<open>RewardType.DENSE\<close> is named by the scenario; every other member of the
  enum behaves the same way in it and is represented by \<open>SPARSE\<close>.\<close>

datatype RewardType = DENSE | SPARSE

text \<open>The members of \<^verbatim>\<open>ChauffeurCommand\<close> that the scenario names.\<close>

datatype ChauffeurCommand = LANE_FOLLOW | CHANGE_LANE_LEFT | CHANGE_LANE_RIGHT

datatype error = AttributeError | IndexError | KeyError | ZeroDivisionError | TypeError

text \<open>\<^verbatim>\<open>carla.Location\<close>, \<^verbatim>\<open>carla.Transform\<close> (of the rotation only the yaw, in degrees,
  is read) and \<^verbatim>\<open>carla.Waypoint\<close>.\<close>

record Location =
  loc_x :: real
  loc_y :: real
  loc_z :: real

record Transform =
  location :: Location
  yaw :: real

record Waypoint =
  lane_id :: int
  transform :: Transform

text \<open>\<^verbatim>\<open>LaneChangeInstant\<close>: the fields the scenario reads.\<close>

record LaneChangeInstant =
  timeslot :: string
  frame_start :: int
  vehicle_id :: int
  chauffeur_command :: ChauffeurCommand

text \<open>A vehicle of the recording, with its transform already in CARLA coordinates.\<close>

record NGSimVehicle =
  id_veh :: int
  transform_veh :: Transform

subsection \<open>Collaborators\<close>

text \<open>
  The lane graph (\<^verbatim>\<open>self._world_map\<close> and the waypoints' neighbour queries, which
  return \<^verbatim>\<open>None\<close> where there is no lane), the two helpers of the package that live
  outside this file (\<^verbatim>\<open>distance_between_on_plane\<close>, \<^verbatim>\<open>normalize_angle\<close>) and the
  constant \<^verbatim>\<open>FRAMES_BEFORE_MANUVEUR\<close> are parameters of the model.
\<close>

record env =
  get_waypoint :: "Location \<Rightarrow> Waypoint"
  get_left_lane :: "Waypoint \<Rightarrow> Waypoint option"
  get_right_lane :: "Waypoint \<Rightarrow> Waypoint option"
  distance_between_on_plane :: "Location \<Rightarrow> Location \<Rightarrow> real"
  normalize_angle :: "real \<Rightarrow> real"
  FRAMES_BEFORE_MANUVEUR :: int

text \<open>\<^verbatim>\<open>carla.Location.distance\<close>: the Euclidean distance in space.\<close>

definition distance :: "Location \<Rightarrow> Location \<Rightarrow> real" where
  "distance p q =
     sqrt ((loc_x p - loc_x q)\<^sup>2 + (loc_y p - loc_y q)\<^sup>2 + (loc_z p - loc_z q)\<^sup>2)"

text \<open>\<^verbatim>\<open>np.deg2rad\<close>.\<close>

definition deg2rad :: "real \<Rightarrow> real" where
  "deg2rad d = d * pi / 180"

subsection \<open>Constants\<close>

definition CROSSTRACK_ERROR_TOLERANCE :: real where
  "CROSSTRACK_ERROR_TOLERANCE = 3 / 10"

definition YAW_DEG_ERRORS_TOLERANCE :: real where
  "YAW_DEG_ERRORS_TOLERANCE = 10"

definition TARGET_LANE_ALIGNMENT_FRAMES :: int where
  "TARGET_LANE_ALIGNMENT_FRAMES = 10"

subsection \<open>The alignment detector\<close>

text \<open>The two local values of \<^verbatim>\<open>_is_lane_aligned\<close> and its verdict for one frame.\<close>

definition crosstrack_error :: "env \<Rightarrow> Transform \<Rightarrow> Waypoint \<Rightarrow> real" where
  "crosstrack_error e ego_transform waypoint =
     distance_between_on_plane e (location ego_transform) (location (transform waypoint))"

definition yaw_error :: "env \<Rightarrow> Transform \<Rightarrow> Waypoint \<Rightarrow> real" where
  "yaw_error e ego_transform waypoint =
     normalize_angle e (deg2rad (yaw ego_transform - yaw (transform waypoint)))"

definition aligned_with_target_lane :: "env \<Rightarrow> Transform \<Rightarrow> Waypoint \<Rightarrow> bool" where
  "aligned_with_target_lane e ego_transform waypoint =
     (crosstrack_error e ego_transform waypoint < CROSSTRACK_ERROR_TOLERANCE \<and>
      yaw_error e ego_transform waypoint < deg2rad YAW_DEG_ERRORS_TOLERANCE)"

text \<open>
  \<^verbatim>\<open>_is_lane_aligned\<close> reads and writes one attribute, the counter: the function takes
  the counter and returns the new counter with the verdict.
\<close>

definition is_lane_aligned :: "env \<Rightarrow> int \<Rightarrow> Transform \<Rightarrow> Waypoint \<Rightarrow> int \<times> bool" where
  "is_lane_aligned e counter ego_transform waypoint =
     (let counter' = (if aligned_with_target_lane e ego_transform waypoint
                      then counter + 1 else 0)
      in (counter', counter' = TARGET_LANE_ALIGNMENT_FRAMES))"

text \<open>The detector called on a sequence of frames: the final counter and the verdict
  of every frame, in order.\<close>

fun run_aligned :: "env \<Rightarrow> int \<Rightarrow> (Transform \<times> Waypoint) list \<Rightarrow> int \<times> bool list" where
  "run_aligned e counter [] = (counter, [])"
| "run_aligned e counter ((t, w) # fs) =
     (let (counter', r) = is_lane_aligned e counter t w;
          (counter'', rs) = run_aligned e counter' fs
      in (counter'', r # rs))"

subsection \<open>Raising and sequencing\<close>

text \<open>Reading an attribute of \<^verbatim>\<open>None\<close> (or an attribute that was never assigned)
  raises \<^verbatim>\<open>AttributeError\<close>; arithmetic on \<^verbatim>\<open>None\<close> raises \<^verbatim>\<open>TypeError\<close>.\<close>

definition attr :: "'a option \<Rightarrow> error + 'a" where
  "attr v = (case v of None \<Rightarrow> Inl AttributeError | Some x \<Rightarrow> Inr x)"

definition operand :: "'a option \<Rightarrow> error + 'a" where
  "operand v = (case v of None \<Rightarrow> Inl TypeError | Some x \<Rightarrow> Inr x)"

definition bind_r :: "error + 'a \<Rightarrow> ('a \<Rightarrow> error + 'b) \<Rightarrow> error + 'b" where
  "bind_r m f = (case m of Inl err \<Rightarrow> Inl err | Inr x \<Rightarrow> f x)"

text \<open>Python's \<^verbatim>\<open>int(x)\<close> on a float truncates towards zero.\<close>

definition py_int :: "real \<Rightarrow> int" where
  "py_int r = (if 0 \<le> r then \<lfloor>r\<rfloor> else \<lceil>r\<rceil>)"

subsection \<open>The scenario object\<close>

text \<open>
  One field per attribute of the object. An attribute that is \<^verbatim>\<open>None\<close>, or that has
  not been assigned yet (\<^verbatim>\<open>__init__\<close> assigns none of the per-episode attributes),
  is \<open>None\<close>. The three helper objects are handles: only their presence is modelled.
\<close>

record scenario =
  ngsim_recording :: "unit option"
  ngsim_dataset :: string
  ngsim_vehicles_in_carla :: "unit option"
  target_alignment_counter :: "int option"
  dataset_mode :: DatasetMode
  early_stop_monitor :: "unit option"
  lane_change_instants :: "LaneChangeInstant list"
  reward_type :: RewardType
  lane_change :: "LaneChangeInstant option"
  previous_chauffeur_command :: "ChauffeurCommand option"
  previous_progress :: "real option"
  total_distance_m :: "real option"
  checkpoints_distance_m :: "real option"
  start_lane_waypoint :: "Waypoint option"
  target_lane_waypoint :: "Waypoint option"

subsection \<open>Construction and the train/validation split\<close>

text \<open>
  \<^verbatim>\<open>determine_split\<close>. The SHA-1 digest read as a base-16 integer
  (\<^verbatim>\<open>int(hashlib.sha1(...).hexdigest(), 16)\<close>) and \<^verbatim>\<open>str\<close> of an instant are library
  functions: parameters \<open>sha1_int\<close> and \<open>str_of\<close>.
\<close>

definition determine_split ::
  "(string \<Rightarrow> nat) \<Rightarrow> (LaneChangeInstant \<Rightarrow> string) \<Rightarrow> LaneChangeInstant \<Rightarrow> DatasetMode" where
  "determine_split sha1_int str_of lane_change_instant =
     (let split_frac = (8 / 10 :: real);
          hash_num = sha1_int (str_of lane_change_instant)
      in if real (hash_num mod 100) / 100 < split_frac then TRAIN else VALIDATION)"

text \<open>
  \<^verbatim>\<open>__init__\<close>, given the instants of the recording. The source has no \<^verbatim>\<open>raise\<close> and
  no check on the filtered list, so the result is always \<open>Inr\<close>; the sum type is kept
  so that a failing construction can be spoken about.
\<close>

definition init ::
  "(string \<Rightarrow> nat) \<Rightarrow> (LaneChangeInstant \<Rightarrow> string) \<Rightarrow> LaneChangeInstant list \<Rightarrow> string \<Rightarrow>
   DatasetMode \<Rightarrow> RewardType \<Rightarrow> error + scenario" where
  "init sha1_int str_of recording_instants dataset_name mode rtype =
     Inr \<lparr> ngsim_recording = Some (),
           ngsim_dataset = dataset_name,
           ngsim_vehicles_in_carla = None,
           target_alignment_counter = None,
           dataset_mode = mode,
           early_stop_monitor = None,
           lane_change_instants =
             filter (\<lambda>lci. determine_split sha1_int str_of lci = mode) recording_instants,
           reward_type = rtype,
           lane_change = None,
           previous_chauffeur_command = None,
           previous_progress = None,
           total_distance_m = None,
           checkpoints_distance_m = None,
           start_lane_waypoint = None,
           target_lane_waypoint = None \<rparr>"

subsection \<open>Reset\<close>

text \<open>\<^verbatim>\<open>random.choice\<close>: the draw is the parameter \<open>r\<close>; an empty list raises
  \<^verbatim>\<open>IndexError\<close>.\<close>

definition random_choice :: "nat \<Rightarrow> 'a list \<Rightarrow> error + 'a" where
  "random_choice r xs = (if xs = [] then Inl IndexError else Inr (xs ! (r mod length xs)))"

text \<open>The two dictionaries of bound methods indexed by the command: the neighbour in the
  commanded direction, and the neighbour in the opposite direction. A command that is
  not a key raises \<^verbatim>\<open>KeyError\<close>; the call may return \<^verbatim>\<open>None\<close>.\<close>

definition lane_towards :: "env \<Rightarrow> ChauffeurCommand \<Rightarrow> Waypoint \<Rightarrow> error + Waypoint option" where
  "lane_towards e c w =
     (case c of CHANGE_LANE_LEFT \<Rightarrow> Inr (get_left_lane e w)
              | CHANGE_LANE_RIGHT \<Rightarrow> Inr (get_right_lane e w)
              | LANE_FOLLOW \<Rightarrow> Inl KeyError)"

definition lane_against :: "env \<Rightarrow> ChauffeurCommand \<Rightarrow> Waypoint \<Rightarrow> error + Waypoint option" where
  "lane_against e c w =
     (case c of CHANGE_LANE_LEFT \<Rightarrow> Inr (get_right_lane e w)
              | CHANGE_LANE_RIGHT \<Rightarrow> Inr (get_left_lane e w)
              | LANE_FOLLOW \<Rightarrow> Inl KeyError)"

definition frame_manuveur_start :: "env \<Rightarrow> LaneChangeInstant \<Rightarrow> int" where
  "frame_manuveur_start e lc = max (frame_start lc - FRAMES_BEFORE_MANUVEUR e) 0"

text \<open>What \<^verbatim>\<open>reset\<close> asks of its collaborators: the arguments of
  \<^verbatim>\<open>self._ngsim_recording.reset\<close>, the transform given to the ego vehicle, and the
  vehicles handed to the background-traffic materializer.\<close>

record reset_calls =
  recording_reset_timeslot :: string
  recording_reset_frame :: int
  vehicle_set_transform :: Transform
  vehicles_in_carla_step :: "NGSimVehicle list"

text \<open>
  \<^verbatim>\<open>reset\<close>. \<open>r\<close> is the random draw and \<open>ngsim_vehicles\<close> what the recording's
  \<^verbatim>\<open>step()\<close> returns after its reset. When no vehicle has the instant's id, the
  source cannot read the agent's transform; the model raises \<open>AttributeError\<close> there.
\<close>

definition reset :: "env \<Rightarrow> scenario \<Rightarrow> nat \<Rightarrow> NGSimVehicle list \<Rightarrow> error + (reset_calls \<times> scenario)" where
  "reset e s r ngsim_vehicles =
     bind_r (random_choice r (lane_change_instants s)) (\<lambda>lc.
     bind_r (attr (ngsim_recording s)) (\<lambda>_.
     bind_r (attr (find (\<lambda>v. id_veh v = vehicle_id lc) ngsim_vehicles)) (\<lambda>agent_ngsim_vehicle.
       let other_ngsim_vehicles = filter (\<lambda>v. id_veh v \<noteq> vehicle_id lc) ngsim_vehicles;
           t = transform_veh agent_ngsim_vehicle;
           start = get_waypoint e (location t)
       in bind_r (lane_towards e (chauffeur_command lc) start) (\<lambda>target.
            Inr (\<lparr> recording_reset_timeslot = timeslot lc,
                    recording_reset_frame = frame_manuveur_start e lc - 1,
                    vehicle_set_transform = t,
                    vehicles_in_carla_step = other_ngsim_vehicles \<rparr>,
                 s \<lparr> ngsim_vehicles_in_carla := Some (),
                     early_stop_monitor := Some (),
                     lane_change := Some lc,
                     target_alignment_counter := Some 0,
                     previous_chauffeur_command := Some (chauffeur_command lc),
                     previous_progress := Some 0,
                     total_distance_m := None,
                     checkpoints_distance_m := None,
                     start_lane_waypoint := Some start,
                     target_lane_waypoint := target \<rparr>)))))"

subsection \<open>The progress scorer\<close>

text \<open>
  The inner function \<^verbatim>\<open>_calc_progress_change\<close>, a closure over the object: it reads
  the total distance, the checkpoint distance and the previous progress and writes the
  previous progress. It returns the progress change and the updated object. A float
  division by zero raises.
\<close>

definition passed_target_centerline :: "real \<Rightarrow> real \<Rightarrow> real \<Rightarrow> bool" where
  "passed_target_centerline total_m distance_from_start distance_from_target =
     (distance_from_start > total_m \<and> distance_from_start > distance_from_target)"

definition calc_progress_change ::
  "scenario \<Rightarrow> Waypoint option \<Rightarrow> Waypoint option \<Rightarrow> Location \<Rightarrow> error + (real \<times> scenario)" where
  "calc_progress_change s start_waypoint target_waypoint current_location =
     bind_r (attr start_waypoint) (\<lambda>sw.
     bind_r (attr target_waypoint) (\<lambda>tw.
       let start_location = location (transform sw);
           target_location = location (transform tw);
           distance_from_start = distance current_location start_location;
           distance_from_target = distance current_location target_location
       in bind_r (operand (total_distance_m s)) (\<lambda>total_m.
          bind_r (operand (checkpoints_distance_m s)) (\<lambda>checkpoints_distance.
            let distance_traveled_m = total_m - distance_from_target
            in if checkpoints_distance = 0 then Inl ZeroDivisionError
               else
                 let checkpoints_passed_number =
                       py_int (distance_traveled_m / checkpoints_distance);
                     passed =
                       passed_target_centerline total_m distance_from_start distance_from_target;
                     progress = of_bool (\<not> passed) * (of_int checkpoints_passed_number / 10)
                 in bind_r (operand (previous_progress s)) (\<lambda>previous.
                      Inr (progress - previous, s \<lparr> previous_progress := Some progress \<rparr>))))))"

text \<open>Lines 173 to 177 of \<^verbatim>\<open>_get_progress_change\<close>: the first query of an episode
  fixes the total distance and the checkpoint distance; \<open>tlw\<close> is the target lane
  waypoint of the object.\<close>

definition fix_total_distance :: "scenario \<Rightarrow> Location \<Rightarrow> Waypoint \<Rightarrow> scenario" where
  "fix_total_distance s current_location tlw =
     (let checkpoints_number = 10
      in if total_distance_m s = None
         then (let target_lane_location = location (transform tlw);
                   total_m = distance current_location target_lane_location
               in s \<lparr> total_distance_m := Some total_m,
                       checkpoints_distance_m := Some (total_m / checkpoints_number) \<rparr>)
         else s)"

text \<open>\<^verbatim>\<open>_get_progress_change\<close>: the progress change and the updated object.\<close>

definition get_progress_change :: "env \<Rightarrow> scenario \<Rightarrow> Transform \<Rightarrow> error + (real \<times> scenario)" where
  "get_progress_change e s ego_transform =
     (let current_location = location ego_transform;
          current_waypoint = get_waypoint e current_location
      in bind_r (attr (start_lane_waypoint s)) (\<lambda>slw.
         bind_r (attr (target_lane_waypoint s)) (\<lambda>tlw.
           let on_start_lane = (lane_id current_waypoint = lane_id slw);
               on_target_lane = (lane_id current_waypoint = lane_id tlw);
               s1 = fix_total_distance s current_location tlw
           in if on_start_lane then
                bind_r (attr (lane_change s1)) (\<lambda>lc.
                bind_r (lane_towards e (chauffeur_command lc) current_waypoint) (\<lambda>target_waypoint.
                  calc_progress_change s1 (Some current_waypoint) target_waypoint current_location))
              else if on_target_lane then
                bind_r (attr (lane_change s1)) (\<lambda>lc.
                bind_r (lane_against e (chauffeur_command lc) current_waypoint) (\<lambda>start_waypoint.
                  calc_progress_change s1 start_waypoint (Some current_waypoint) current_location))
              else Inr (0, s1))))"

text \<open>\<^verbatim>\<open>_calc_progress_change\<close> called on a sequence of queries, each a start
  waypoint, a target waypoint and a location: the progress change of every query, in
  order, and the object after the last.\<close>

fun run_calc ::
  "scenario \<Rightarrow> (Waypoint \<times> Waypoint \<times> Location) list \<Rightarrow> error + (real list \<times> scenario)" where
  "run_calc s [] = Inr ([], s)"
| "run_calc s ((sw, tw, loc) # qs) =
     bind_r (calc_progress_change s (Some sw) (Some tw) loc) (\<lambda>(change, s').
     bind_r (run_calc s' qs) (\<lambda>(changes, s'').
       Inr (change # changes, s'')))"


subsection \<open>Step\<close>

text \<open>What one frame brings from outside: the vehicles the recording's \<^verbatim>\<open>step()\<close>
  returns, the recording's frame number after it, the ego vehicle's transform, and the
  answer of the early-stop monitor should it be asked.\<close>

record frame_in =
  ngsim_vehicles :: "NGSimVehicle list"
  recording_frame :: int
  ego_transform :: Transform
  early_stop_monitor_says :: bool

text \<open>The local variables of \<^verbatim>\<open>step\<close> at line 125.\<close>

record step_locals =
  on_start_lane :: bool
  on_target_lane :: bool
  not_on_expected_lanes :: bool
  chauffeur_command_now :: ChauffeurCommand
  scenario_finished_with_success :: bool
  early_stop :: bool
  done_flag :: bool
  progress_change :: real
  reward :: real

record info =
  info_road :: string
  info_timeslice :: string
  info_frame :: int
  info_dataset_mode :: DatasetMode
  info_reward_type :: RewardType
  info_target_alignment_counter :: int

record ScenarioStepResult =
  res_chauffeur_command :: ChauffeurCommand
  res_reward :: real
  res_done :: bool
  res_info :: info

text \<open>
  Lines 105 to 125 of \<^verbatim>\<open>step\<close>. \<^verbatim>\<open>&\<close> and \<^verbatim>\<open>|\<close> on booleans evaluate both
  operands, so \<^verbatim>\<open>_is_lane_aligned\<close> runs on every frame; \<^verbatim>\<open>and\<close> does not, so the
  early-stop monitor is called only when the frame has not succeeded. The list
  comprehension reads \<^verbatim>\<open>self._lane_change\<close> once per vehicle.
\<close>

definition step_body :: "env \<Rightarrow> scenario \<Rightarrow> frame_in \<Rightarrow> error + (step_locals \<times> scenario)" where
  "step_body e s f =
     bind_r (attr (ngsim_recording s)) (\<lambda>_.
     bind_r (if ngsim_vehicles f = [] then Inr () else bind_r (attr (lane_change s)) (\<lambda>_. Inr ())) (\<lambda>_.
     bind_r (attr (ngsim_vehicles_in_carla s)) (\<lambda>_.
       let waypoint = get_waypoint e (location (ego_transform f))
       in bind_r (attr (start_lane_waypoint s)) (\<lambda>slw.
          bind_r (attr (target_lane_waypoint s)) (\<lambda>tlw.
            let on_start = (lane_id waypoint = lane_id slw);
                on_target = (lane_id waypoint = lane_id tlw);
                not_on_expected = (\<not> (on_start \<or> on_target))
            in bind_r (if on_start
                       then bind_r (attr (lane_change s)) (\<lambda>lc. Inr (chauffeur_command lc))
                       else Inr LANE_FOLLOW) (\<lambda>command.
               bind_r (attr (target_alignment_counter s)) (\<lambda>counter.
                 let (counter', complete) = is_lane_aligned e counter (ego_transform f) waypoint;
                     s1 = s \<lparr> target_alignment_counter := Some counter' \<rparr>;
                     succeeded = (on_target \<and> complete)
                 in bind_r (if succeeded then Inr False
                            else bind_r (case early_stop_monitor s1 of
                                           None \<Rightarrow> Inl TypeError | Some _ \<Rightarrow> Inr ()) (\<lambda>_.
                                   Inr (early_stop_monitor_says f \<or> not_on_expected))) (\<lambda>stop.
                    bind_r (get_progress_change e s1 (ego_transform f)) (\<lambda>(change, s2).
                      Inr (\<lparr> on_start_lane = on_start,
                              on_target_lane = on_target,
                              not_on_expected_lanes = not_on_expected,
                              chauffeur_command_now = command,
                              scenario_finished_with_success = succeeded,
                              early_stop = stop,
                              done_flag = (succeeded \<or> stop),
                              progress_change = change,
                              reward = of_bool (reward_type s1 = DENSE) * change
                                       + of_bool succeeded + of_bool stop * (- 1) \<rparr>,
                           s2))))))))))"

text \<open>\<^verbatim>\<open>step\<close>: lines 127 to 138 store the command and build the result.\<close>

definition step :: "env \<Rightarrow> scenario \<Rightarrow> frame_in \<Rightarrow> error + (ScenarioStepResult \<times> scenario)" where
  "step e s f =
     bind_r (step_body e s f) (\<lambda>(l, s2).
       let s3 = s2 \<lparr> previous_chauffeur_command := Some (chauffeur_command_now l) \<rparr>
       in bind_r (attr (lane_change s3)) (\<lambda>lc.
          bind_r (attr (ngsim_recording s3)) (\<lambda>_.
          bind_r (attr (target_alignment_counter s3)) (\<lambda>counter.
            Inr (\<lparr> res_chauffeur_command = chauffeur_command_now l,
                    res_reward = reward l,
                    res_done = done_flag l,
                    res_info = \<lparr> info_road = ngsim_dataset s3,
                                 info_timeslice = timeslot lc,
                                 info_frame = recording_frame f,
                                 info_dataset_mode = dataset_mode s3,
                                 info_reward_type = reward_type s3,
                                 info_target_alignment_counter = counter \<rparr> \<rparr>,
                 s3)))))"

subsection \<open>Close\<close>

definition close :: "scenario \<Rightarrow> scenario" where
  "close s = s \<lparr> early_stop_monitor := None,
                 ngsim_vehicles_in_carla := None,
                 lane_change_instants := [],
                 lane_change := None,
                 ngsim_recording := None \<rparr>"

subsection \<open>Episodes\<close>





subsection \<open>A concrete road\<close>

text \<open>
  A straight road of three lanes along the x axis, each 4 wide, with centrelines at
  \<open>y = 0\<close>, \<open>4\<close> and \<open>8\<close> and lane ids 1, 2 and 3; lane 2 is the left neighbour of
  lane 1. The nearest centreline point is the waypoint of a location. It serves as the
  concrete input of the examples below.
\<close>

definition lane_waypoint :: "int \<Rightarrow> real \<Rightarrow> Waypoint" where
  "lane_waypoint k x =
     \<lparr> lane_id = k,
       transform = \<lparr> location = \<lparr> loc_x = x, loc_y = 4 * (of_int k - 1), loc_z = 0 \<rparr>,
                     yaw = 0 \<rparr> \<rparr>"

definition at_xy :: "real \<Rightarrow> real \<Rightarrow> Location" where
  "at_xy x y = \<lparr> loc_x = x, loc_y = y, loc_z = 0 \<rparr>"

definition pose :: "real \<Rightarrow> real \<Rightarrow> real \<Rightarrow> Transform" where
  "pose x y yaw_deg = \<lparr> location = at_xy x y, yaw = yaw_deg \<rparr>"

text \<open>Modelled from the spec: \<^verbatim>\<open>distance_between_on_plane\<close> is missing from the
  sources; the spec calls it the planar distance between the two positions.\<close>

definition planar_distance :: "Location \<Rightarrow> Location \<Rightarrow> real" where
  "planar_distance p q = sqrt ((loc_x p - loc_x q)\<^sup>2 + (loc_y p - loc_y q)\<^sup>2)"

text \<open>Modelled from the spec: \<^verbatim>\<open>normalize_angle\<close> is missing from the sources; the
  spec has it wrap an angle in radians to the interval from \<open>-\<pi>\<close> (excluded) to
  \<open>\<pi>\<close> (included).\<close>

definition wrap_angle :: "real \<Rightarrow> real" where
  "wrap_angle a = a - 2 * pi * of_int \<lceil>(a - pi) / (2 * pi)\<rceil>"

definition three_lane_road :: env where
  "three_lane_road =
     \<lparr> get_waypoint = (\<lambda>p. lane_waypoint (if loc_y p < 2 then 1 else if loc_y p < 6 then 2 else 3)
                                          (loc_x p)),
       get_left_lane = (\<lambda>w. if lane_id w < 3
                             then Some (lane_waypoint (lane_id w + 1) (loc_x (location (transform w))))
                             else None),
       get_right_lane = (\<lambda>w. if 1 < lane_id w
                              then Some (lane_waypoint (lane_id w - 1) (loc_x (location (transform w))))
                              else None),
       distance_between_on_plane = planar_distance,
       normalize_angle = wrap_angle,
       FRAMES_BEFORE_MANUVEUR = 20 \<rparr>"

text \<open>A lane change to the left out of lane 1, and the object in the middle of an
  episode of it: the alignment counter is \<open>c\<close>, the previous progress \<open>p\<close>, and the
  total distance was fixed at 4 by the first progress query.\<close>

definition left_change :: LaneChangeInstant where
  "left_change = \<lparr> timeslot = ''0750am-0805am'', frame_start = 100, vehicle_id = 7,
                   chauffeur_command = CHANGE_LANE_LEFT \<rparr>"

definition mid_episode :: "int \<Rightarrow> real \<Rightarrow> scenario" where
  "mid_episode c p =
     \<lparr> ngsim_recording = Some (),
       ngsim_dataset = ''US101'',
       ngsim_vehicles_in_carla = Some (),
       target_alignment_counter = Some c,
       dataset_mode = TRAIN,
       early_stop_monitor = Some (),
       lane_change_instants = [left_change],
       reward_type = DENSE,
       lane_change = Some left_change,
       previous_chauffeur_command = Some CHANGE_LANE_LEFT,
       previous_progress = Some p,
       total_distance_m = Some 4,
       checkpoints_distance_m = Some (4 / 10),
       start_lane_waypoint = Some (lane_waypoint 1 0),
       target_lane_waypoint = Some (lane_waypoint 2 0) \<rparr>"

text \<open>A frame with no other vehicle, the ego vehicle at \<open>(x, y)\<close> heading \<open>d\<close> degrees.\<close>

definition frame_at :: "real \<Rightarrow> real \<Rightarrow> real \<Rightarrow> bool \<Rightarrow> frame_in" where
  "frame_at x y d says =
     \<lparr> ngsim_vehicles = [], recording_frame = 150, ego_transform = pose x y d,
       early_stop_monitor_says = says \<rparr>"

text \<open>Stand-ins for the two library functions in the examples: the sum of the character
  codes in place of the SHA-1 digest, and the timeslot in place of \<^verbatim>\<open>str\<close> of the
  instant. The vehicle of the recording that performs \<open>left_change\<close> starts on the
  centreline of lane 1.\<close>

definition char_sum :: "string \<Rightarrow> nat" where
  "char_sum s = sum_list (map of_char s)"

definition instant_key :: "LaneChangeInstant \<Rightarrow> string" where
  "instant_key lci = timeslot lci"

definition agent_vehicle :: NGSimVehicle where
  "agent_vehicle = \<lparr> id_veh = 7, transform_veh = pose 0 0 0 \<rparr>"

text \<open>The object as \<^verbatim>\<open>reset\<close> leaves it for \<open>left_change\<close>, and four frames in
  which the ego vehicle moves from the centreline of lane 1 towards lane 2 by 0.3 a
  frame; \<open>on_start_locals\<close> are the local variables of \<^verbatim>\<open>step\<close> in such a frame.\<close>

definition just_reset :: scenario where
  "just_reset = (mid_episode 0 0) \<lparr> total_distance_m := None, checkpoints_distance_m := None \<rparr>"



text \<open>A second instant of the same timeslot, 100 frames later.\<close>

definition later_change :: LaneChangeInstant where
  "later_change = left_change \<lparr> frame_start := 200 \<rparr>"

section \<open>Properties\<close>

subsection \<open>Evaluating the concrete road\<close>

lemma distance_nonneg: "0 \<le> distance p q"
  by (simp add: distance_def)

lemma distance_same_xz:
  "loc_x p = loc_x q \<Longrightarrow> loc_z p = loc_z q \<Longrightarrow> distance p q = \<bar>loc_y p - loc_y q\<bar>"
  by (simp add: distance_def)

lemma planar_distance_same_x:
  "loc_x p = loc_x q \<Longrightarrow> planar_distance p q = \<bar>loc_y p - loc_y q\<bar>"
  by (simp add: planar_distance_def)

lemma wrap_angle_id:
  assumes "- pi < a" and "a \<le> pi"
  shows "wrap_angle a = a"
proof -
  have "(a - pi) / (2 * pi) \<le> 0"
    using assms by (simp add: divide_le_0_iff)
  moreover have "- 1 < (a - pi) / (2 * pi)"
    using assms by (simp add: less_divide_eq)
  ultimately have "\<lceil>(a - pi) / (2 * pi)\<rceil> = 0"
    by (simp add: ceiling_eq_iff)
  then show ?thesis
    by (simp add: wrap_angle_def)
qed

lemma deg2rad_0: "deg2rad 0 = 0"
  by (simp add: deg2rad_def)

lemma wrap_angle_0: "wrap_angle 0 = 0"
  by (rule wrap_angle_id) simp_all

lemma aligned_on_road:
  "aligned_with_target_lane three_lane_road (pose x y d) (lane_waypoint k x) =
     (\<bar>y - 4 * (of_int k - 1)\<bar> < 3 / 10 \<and> wrap_angle (deg2rad d) < deg2rad 10)"
  by (simp add: aligned_with_target_lane_def crosstrack_error_def yaw_error_def
      three_lane_road_def pose_def at_xy_def lane_waypoint_def planar_distance_same_x
      CROSSTRACK_ERROR_TOLERANCE_def YAW_DEG_ERRORS_TOLERANCE_def)

lemma aligned_at_centre:
  "aligned_with_target_lane three_lane_road (pose 0 4 0) (lane_waypoint 2 0)"
  by (simp add: aligned_on_road deg2rad_def wrap_angle_0)

lemma not_aligned_off_centre:
  "\<not> aligned_with_target_lane three_lane_road (pose 0 5 0) (lane_waypoint 2 0)"
  by (simp add: aligned_on_road)

lemma bind_r_simps [simp]: "bind_r (Inl err) k = Inl err" "bind_r (Inr x) k = k x"
  by (simp_all add: bind_r_def)

lemma attr_simps [simp]: "attr None = Inl AttributeError" "attr (Some x) = Inr x"
  by (simp_all add: attr_def)

lemma operand_simps [simp]: "operand None = Inl TypeError" "operand (Some x) = Inr x"
  by (simp_all add: operand_def)

lemma bind_rE:
  assumes "bind_r m k = Inr y"
  obtains x where "m = Inr x" and "k x = Inr y"
  using assms by (cases m) simp_all

lemma attr_Inr: "attr v = Inr x \<longleftrightarrow> v = Some x"
  by (cases v) simp_all

lemma operand_Inr: "operand v = Inr x \<longleftrightarrow> v = Some x"
  by (cases v) simp_all

lemma road_simps:
  "get_waypoint three_lane_road p =
     lane_waypoint (if loc_y p < 2 then 1 else if loc_y p < 6 then 2 else 3) (loc_x p)"
  "get_left_lane three_lane_road w =
     (if lane_id w < 3 then Some (lane_waypoint (lane_id w + 1) (loc_x (location (transform w)))) else None)"
  "get_right_lane three_lane_road w =
     (if 1 < lane_id w then Some (lane_waypoint (lane_id w - 1) (loc_x (location (transform w)))) else None)"
  "distance_between_on_plane three_lane_road = planar_distance"
  "normalize_angle three_lane_road = wrap_angle"
  "FRAMES_BEFORE_MANUVEUR three_lane_road = 20"
  by (simp_all add: three_lane_road_def)

lemma lane_waypoint_simps:
  "lane_id (lane_waypoint k x) = k"
  "location (transform (lane_waypoint k x)) = at_xy x (4 * (of_int k - 1))"
  "yaw (transform (lane_waypoint k x)) = 0"
  by (simp_all add: lane_waypoint_def at_xy_def)

lemma pose_simps: "location (pose x y d) = at_xy x y" "yaw (pose x y d) = d"
  by (simp_all add: pose_def)

lemma at_xy_simps: "loc_x (at_xy x y) = x" "loc_y (at_xy x y) = y" "loc_z (at_xy x y) = 0"
  by (simp_all add: at_xy_def)

lemma distance_at_xy: "distance (at_xy x y) (at_xy x y') = \<bar>y - y'\<bar>"
  by (simp add: distance_same_xz at_xy_def)

lemma planar_distance_at_xy: "planar_distance (at_xy x y) (at_xy x y') = \<bar>y - y'\<bar>"
  by (simp add: planar_distance_same_x at_xy_def)

lemma py_int_of_int: "py_int (of_int k) = k"
  by (simp add: py_int_def)

lemma py_int_numeral: "py_int 0 = 0" "py_int (numeral n) = numeral n" "py_int (- numeral n) = - numeral n"
  using py_int_of_int[of 0] py_int_of_int[of "numeral n"] py_int_of_int[of "- numeral n"] by simp_all

lemma deg2rad_10_pos: "0 < deg2rad 10"
  by (simp add: deg2rad_def)

lemmas eval_simps = deg2rad_10_pos step_def step_body_def frame_at_def get_progress_change_def mid_episode_def
  fix_total_distance_def
  road_simps lane_waypoint_simps pose_simps at_xy_simps distance_at_xy planar_distance_at_xy
  Let_def lane_against_def
  lane_towards_def left_change_def calc_progress_change_def passed_target_centerline_def
  is_lane_aligned_def aligned_with_target_lane_def crosstrack_error_def yaw_error_def
  deg2rad_0 wrap_angle_0 TARGET_LANE_ALIGNMENT_FRAMES_def
  CROSSTRACK_ERROR_TOLERANCE_def YAW_DEG_ERRORS_TOLERANCE_def py_int_numeral

subsection \<open>The alignment debounce\<close>

lemma run_aligned_streak:
  "list_all (\<lambda>(t, w). aligned_with_target_lane e t w) fs \<Longrightarrow>
   run_aligned e c fs = (c + int (length fs), map (\<lambda>k. c + 1 + int k = 10) [0..<length fs])"
proof (induction fs arbitrary: c)
  case Nil
  then show ?case by simp
next
  case (Cons f fs)
  obtain t w where f: "f = (t, w)" by (cases f)
  from Cons.prems f have al: "aligned_with_target_lane e t w"
    and rest: "list_all (\<lambda>(t, w). aligned_with_target_lane e t w) fs" by simp_all
  have "map (\<lambda>k. c + 1 + int k = 10) [0..<Suc (length fs)] =
        (c + 1 = 10) # map (\<lambda>k. c + 1 + 1 + int k = 10) [0..<length fs]"
    by (simp only: upt_conv_Cons[of 0] map_Suc_upt[symmetric]) (simp add: algebra_simps)
  with Cons.IH[OF rest, of "c + 1"] al f show ?case
    by (simp add: is_lane_aligned_def TARGET_LANE_ALIGNMENT_FRAMES_def algebra_simps)
qed

lemma run_aligned_append:
  "run_aligned e c (fs @ gs) =
     (let (c', rs) = run_aligned e c fs; (c'', rs') = run_aligned e c' gs in (c'', rs @ rs'))"
  by (induction fs arbitrary: c) (auto simp: Let_def split: prod.splits)

text \<open>
  Claim C2. Start from a counter of 0 (as \<^verbatim>\<open>reset\<close> leaves it, or as a non-aligned
  frame does) and let a streak of aligned frames \<open>fs\<close> follow, of any length. The counter
  after the streak is its length, and the verdict of its frame number \<open>k\<close> (counting
  from 0) is true exactly for \<open>k = 9\<close>: completion is reported on the 10th frame of the
  streak and on no other, so a streak of 9 reports nothing. A non-aligned frame after
  the streak sets the counter to exactly 0 and reports nothing.
\<close>

theorem alignment_debounce:
  assumes "list_all (\<lambda>(t, w). aligned_with_target_lane e t w) fs"
    and "\<not> aligned_with_target_lane e t w"
  shows "run_aligned e 0 fs = (int (length fs), map (\<lambda>k. k = 9) [0..<length fs]) \<and>
         run_aligned e 0 (fs @ [(t, w)]) = (0, map (\<lambda>k. k = 9) [0..<length fs] @ [False])"
  using run_aligned_streak[OF assms(1), of 0] assms(2)
  by (simp add: run_aligned_append is_lane_aligned_def TARGET_LANE_ALIGNMENT_FRAMES_def)

theorem alignment_debounce_witness:
  "list_all (\<lambda>(t, w). aligned_with_target_lane three_lane_road t w)
     (replicate 10 (pose 0 4 0, lane_waypoint 2 0)) \<and>
   \<not> aligned_with_target_lane three_lane_road (pose 0 5 0) (lane_waypoint 2 0) \<and>
   run_aligned three_lane_road 0 (replicate 10 (pose 0 4 0, lane_waypoint 2 0)) =
     (10, [False, False, False, False, False, False, False, False, False, True]) \<and>
   run_aligned three_lane_road 0
     (replicate 10 (pose 0 4 0, lane_waypoint 2 0) @ [(pose 0 5 0, lane_waypoint 2 0)]) =
     (0, [False, False, False, False, False, False, False, False, False, True, False])"
proof -
  have h1: "list_all (\<lambda>(t, w). aligned_with_target_lane three_lane_road t w)
     (replicate 10 (pose 0 4 0, lane_waypoint 2 0))"
    by (simp add: list_all_iff aligned_at_centre)
  have h2: "\<not> aligned_with_target_lane three_lane_road (pose 0 5 0) (lane_waypoint 2 0)"
    by (rule not_aligned_off_centre)
  show ?thesis
    using h1 h2 alignment_debounce[OF h1 h2] by (simp add: upt_rec)
qed

subsection \<open>What a returning step computed\<close>

lemma step_body_Inr:
  assumes "step_body e s f = Inr (l, s')"
  shows "\<exists>slw tlw c.
    start_lane_waypoint s = Some slw \<and>
    target_lane_waypoint s = Some tlw \<and>
    target_alignment_counter s = Some c \<and>
    on_start_lane l = (lane_id (get_waypoint e (location (ego_transform f))) = lane_id slw) \<and>
    on_target_lane l = (lane_id (get_waypoint e (location (ego_transform f))) = lane_id tlw) \<and>
    not_on_expected_lanes l = (\<not> (on_start_lane l \<or> on_target_lane l)) \<and>
    scenario_finished_with_success l =
       (on_target_lane l \<and>
        snd (is_lane_aligned e c (ego_transform f) (get_waypoint e (location (ego_transform f))))) \<and>
    early_stop l = (\<not> scenario_finished_with_success l \<and>
                     (early_stop_monitor_says f \<or> not_on_expected_lanes l)) \<and>
    done_flag l = (scenario_finished_with_success l \<or> early_stop l) \<and>
    reward l = of_bool (reward_type s = DENSE) * progress_change l
                + of_bool (scenario_finished_with_success l) + of_bool (early_stop l) * (- 1) \<and>
    get_progress_change e
       (s \<lparr> target_alignment_counter :=
              Some (fst (is_lane_aligned e c (ego_transform f)
                          (get_waypoint e (location (ego_transform f))))) \<rparr>)
       (ego_transform f) = Inr (progress_change l, s')"
  using assms unfolding step_body_def Let_def case_prod_beta
  apply (elim bind_rE)
  apply (simp only: attr_Inr sum.inject prod.inject)
  apply (elim conjE)
  apply hypsubst
  apply (cases "early_stop_monitor s")
  apply (simp_all split: if_splits)
  done

lemma step_Inr:
  assumes "step e s f = Inr (res, s')"
  shows "\<exists>l s2. step_body e s f = Inr (l, s2) \<and>
           res_chauffeur_command res = chauffeur_command_now l \<and>
           res_reward res = reward l \<and> res_done res = done_flag l \<and>
           Some (info_target_alignment_counter (res_info res)) = target_alignment_counter s2 \<and>
           s' = s2 \<lparr> previous_chauffeur_command := Some (chauffeur_command_now l) \<rparr>"
  using assms unfolding step_def Let_def case_prod_beta
  apply (elim bind_rE)
  apply (cases "step_body e s f")
  apply (auto simp: attr_Inr)
  done

lemma get_progress_change_counter:
  assumes "get_progress_change e s t = Inr (ch, s')"
  shows "target_alignment_counter s' = target_alignment_counter s"
  using assms unfolding get_progress_change_def calc_progress_change_def fix_total_distance_def Let_def
  apply (elim bind_rE)
  apply (auto simp: attr_Inr operand_Inr split: if_splits elim!: bind_rE)
  done

lemma step_on_target_complete:
  "step three_lane_road (mid_episode 9 (9 / 10)) (frame_at 0 4 0 True) =
   Inr (\<lparr> res_chauffeur_command = LANE_FOLLOW, res_reward = 11 / 10, res_done = True,
          res_info = \<lparr> info_road = ''US101'', info_timeslice = ''0750am-0805am'', info_frame = 150,
             info_dataset_mode = TRAIN, info_reward_type = DENSE, info_target_alignment_counter = 10 \<rparr> \<rparr>,
        (mid_episode 10 1) \<lparr> previous_chauffeur_command := Some LANE_FOLLOW \<rparr>)"
  by (simp add: eval_simps)

lemma step_on_start_aligned:
  "step three_lane_road (mid_episode 3 0) (frame_at 0 0 0 False) =
     Inr (\<lparr> res_chauffeur_command = CHANGE_LANE_LEFT, res_reward = 0, res_done = False,
            res_info = \<lparr> info_road = ''US101'', info_timeslice = ''0750am-0805am'',
                         info_frame = 150, info_dataset_mode = TRAIN, info_reward_type = DENSE,
                         info_target_alignment_counter = 4 \<rparr> \<rparr>,
          mid_episode 4 0)"
  by (simp add: eval_simps)

lemma step_on_start_off_centre:
  "step three_lane_road (mid_episode 3 0) (frame_at 0 1 0 False) =
     Inr (\<lparr> res_chauffeur_command = CHANGE_LANE_LEFT, res_reward = 2 / 10, res_done = False,
            res_info = \<lparr> info_road = ''US101'', info_timeslice = ''0750am-0805am'',
                         info_frame = 150, info_dataset_mode = TRAIN, info_reward_type = DENSE,
                         info_target_alignment_counter = 0 \<rparr> \<rparr>,
          mid_episode 0 (2 / 10))"
  by (simp add: eval_simps py_int_def)

lemma yaw_error_minus_90:
  "yaw_error three_lane_road (pose 0 4 (- 90)) (lane_waypoint 2 0) = - (pi / 2)"
proof -
  have "- (pi / 2) \<le> pi"
    using pi_gt_zero by linarith
  then have "wrap_angle (- (pi / 2)) = - (pi / 2)"
    by (intro wrap_angle_id) simp_all
  then show ?thesis
    by (simp add: yaw_error_def road_simps pose_simps lane_waypoint_simps deg2rad_def)
qed

subsection \<open>The arbiter\<close>

text \<open>
  Claim C1. Take a step that returns, made while the agent is on the target lane, the
  alignment check reports completion on it, and the early-stop monitor would say stop.
  Then the step's \<open>scenario_finished_with_success\<close> is true, its \<open>early_stop\<close> is
  false, and \<open>done\<close> is true, in the locals and in the result; the reward is the dense
  progress term plus 1, with no penalty of 1 subtracted.
\<close>

theorem arbiter_precedence:
  assumes "step e s f = Inr (res, s')"
    and "target_lane_waypoint s = Some tlw"
    and "lane_id (get_waypoint e (location (ego_transform f))) = lane_id tlw"
    and "target_alignment_counter s = Some c"
    and "snd (is_lane_aligned e c (ego_transform f) (get_waypoint e (location (ego_transform f))))"
    and "early_stop_monitor_says f"
  shows "\<exists>l s2. step_body e s f = Inr (l, s2) \<and>
           scenario_finished_with_success l \<and> \<not> early_stop l \<and> done_flag l \<and>
           reward l = of_bool (reward_type s = DENSE) * progress_change l + 1 \<and>
           res_done res \<and> res_reward res = reward l"
proof -
  from step_Inr[OF assms(1)] obtain l s2 where
    b: "step_body e s f = Inr (l, s2)" and r: "res_reward res = reward l"
    and d: "res_done res = done_flag l" by blast
  from step_body_Inr[OF b] assms(2-6)
  have "scenario_finished_with_success l \<and> \<not> early_stop l \<and> done_flag l \<and>
        reward l = of_bool (reward_type s = DENSE) * progress_change l + 1"
    by auto
  with b r d show ?thesis by auto
qed

theorem arbiter_precedence_witness:
  "step three_lane_road (mid_episode 9 (9 / 10)) (frame_at 0 4 0 True) =
     Inr (\<lparr> res_chauffeur_command = LANE_FOLLOW, res_reward = 11 / 10, res_done = True,
            res_info = \<lparr> info_road = ''US101'', info_timeslice = ''0750am-0805am'',
                         info_frame = 150, info_dataset_mode = TRAIN, info_reward_type = DENSE,
                         info_target_alignment_counter = 10 \<rparr> \<rparr>,
          (mid_episode 10 1) \<lparr> previous_chauffeur_command := Some LANE_FOLLOW \<rparr>) \<and>
   target_lane_waypoint (mid_episode 9 (9 / 10)) = Some (lane_waypoint 2 0) \<and>
   lane_id (get_waypoint three_lane_road (location (ego_transform (frame_at 0 4 0 True)))) =
     lane_id (lane_waypoint 2 0) \<and>
   target_alignment_counter (mid_episode 9 (9 / 10)) = Some 9 \<and>
   snd (is_lane_aligned three_lane_road 9 (ego_transform (frame_at 0 4 0 True))
         (get_waypoint three_lane_road (location (ego_transform (frame_at 0 4 0 True))))) \<and>
   early_stop_monitor_says (frame_at 0 4 0 True) \<and>
   (\<exists>l s2. step_body three_lane_road (mid_episode 9 (9 / 10)) (frame_at 0 4 0 True) = Inr (l, s2) \<and>
      scenario_finished_with_success l \<and> \<not> early_stop l \<and> done_flag l \<and>
      reward l = of_bool (reward_type (mid_episode 9 (9 / 10)) = DENSE) * progress_change l + 1 \<and>
      reward l = 11 / 10)"
proof -
  note h1 = step_on_target_complete
  have h2: "target_lane_waypoint (mid_episode 9 (9 / 10)) = Some (lane_waypoint 2 0)"
    by (simp add: mid_episode_def)
  have h3: "lane_id (get_waypoint three_lane_road (location (ego_transform (frame_at 0 4 0 True)))) =
     lane_id (lane_waypoint 2 0)"
    by (simp add: eval_simps)
  have h4: "target_alignment_counter (mid_episode 9 (9 / 10)) = Some 9"
    by (simp add: mid_episode_def)
  have h5: "snd (is_lane_aligned three_lane_road 9 (ego_transform (frame_at 0 4 0 True))
         (get_waypoint three_lane_road (location (ego_transform (frame_at 0 4 0 True)))))"
    by (simp add: eval_simps)
  have h6: "early_stop_monitor_says (frame_at 0 4 0 True)"
    by (simp add: frame_at_def)
  show ?thesis
    using arbiter_precedence[OF h1 h2 h3 h4 h5 h6] h1 h2 h3 h4 h5 h6 by auto
qed

text \<open>
  Claim C3 says that the alignment check runs only on the target lane and that the
  counter is left alone elsewhere. The operands of \<^verbatim>\<open>&\<close> are both evaluated, so the
  check runs on every frame: on the start lane (lane 1), with the target lane being
  lane 2, an aligned frame takes the counter from 3 to 4.
\<close>

theorem alignment_check_off_target_counterexample:
  "lane_id (get_waypoint three_lane_road (location (ego_transform (frame_at 0 0 0 False)))) \<noteq>
     lane_id (lane_waypoint 2 0) \<and>
   target_lane_waypoint (mid_episode 3 0) = Some (lane_waypoint 2 0) \<and>
   target_alignment_counter (mid_episode 3 0) = Some 3 \<and>
   step three_lane_road (mid_episode 3 0) (frame_at 0 0 0 False) =
     Inr (\<lparr> res_chauffeur_command = CHANGE_LANE_LEFT, res_reward = 0, res_done = False,
            res_info = \<lparr> info_road = ''US101'', info_timeslice = ''0750am-0805am'',
                         info_frame = 150, info_dataset_mode = TRAIN, info_reward_type = DENSE,
                         info_target_alignment_counter = 4 \<rparr> \<rparr>,
          mid_episode 4 0) \<and>
   target_alignment_counter (mid_episode 4 0) = Some 4"
  using step_on_start_aligned by (simp add: eval_simps)

text \<open>
  Claim C3, amended. On every step that returns, whichever lane the agent is on, the
  alignment check runs against the lane the agent occupies: the counter becomes the
  old counter plus 1 when the agent is aligned with that lane and 0 when it is not, and
  the diagnostics report that counter. Being on the target lane gates only the verdict:
  the step has succeeded exactly when the lane of the agent's waypoint is the target
  lane of the object and the new counter is 10; the done flag and the reward of the
  result are built from that verdict.
\<close>

theorem alignment_check_every_step:
  assumes "step e s f = Inr (res, s')"
    and "target_alignment_counter s = Some c"
    and "target_lane_waypoint s = Some tlw"
  shows "target_alignment_counter s' =
           Some (if aligned_with_target_lane e (ego_transform f)
                      (get_waypoint e (location (ego_transform f)))
                 then c + 1 else 0) \<and>
         info_target_alignment_counter (res_info res) =
           (if aligned_with_target_lane e (ego_transform f)
                 (get_waypoint e (location (ego_transform f)))
            then c + 1 else 0) \<and>
         (\<exists>l s2. step_body e s f = Inr (l, s2) \<and>
            on_target_lane l =
              (lane_id (get_waypoint e (location (ego_transform f))) = lane_id tlw) \<and>
            scenario_finished_with_success l =
              (lane_id (get_waypoint e (location (ego_transform f))) = lane_id tlw \<and>
               target_alignment_counter s' = Some 10) \<and>
            res_done res = (scenario_finished_with_success l \<or> early_stop l) \<and>
            res_reward res =
              of_bool (reward_type s = DENSE) * progress_change l
              + of_bool (scenario_finished_with_success l) + of_bool (early_stop l) * (- 1))"
proof -
  let ?wp = "get_waypoint e (location (ego_transform f))"
  from step_Inr[OF assms(1)] obtain l s2 where
    b: "step_body e s f = Inr (l, s2)"
    and rw: "res_reward res = reward l" and dn: "res_done res = done_flag l"
    and inf: "Some (info_target_alignment_counter (res_info res)) = target_alignment_counter s2"
    and s': "s' = s2 \<lparr> previous_chauffeur_command := Some (chauffeur_command_now l) \<rparr>"
    by blast
  from step_body_Inr[OF b] assms(2,3) have
    ont: "on_target_lane l = (lane_id ?wp = lane_id tlw)"
    and succ: "scenario_finished_with_success l =
       (on_target_lane l \<and> snd (is_lane_aligned e c (ego_transform f) ?wp))"
    and dfl: "done_flag l = (scenario_finished_with_success l \<or> early_stop l)"
    and rwl: "reward l = of_bool (reward_type s = DENSE) * progress_change l
                + of_bool (scenario_finished_with_success l) + of_bool (early_stop l) * (- 1)"
    and g: "get_progress_change e
       (s \<lparr> target_alignment_counter := Some (fst (is_lane_aligned e c (ego_transform f) ?wp)) \<rparr>)
       (ego_transform f) = Inr (progress_change l, s2)"
    by auto
  from get_progress_change_counter[OF g]
  have c2: "target_alignment_counter s2 = Some (fst (is_lane_aligned e c (ego_transform f) ?wp))"
    by simp
  have fst_eq: "fst (is_lane_aligned e c (ego_transform f) ?wp) =
      (if aligned_with_target_lane e (ego_transform f) ?wp then c + 1 else 0)"
    by (simp add: is_lane_aligned_def Let_def)
  have snd_eq: "snd (is_lane_aligned e c (ego_transform f) ?wp) =
      (fst (is_lane_aligned e c (ego_transform f) ?wp) = 10)"
    by (simp add: is_lane_aligned_def TARGET_LANE_ALIGNMENT_FRAMES_def Let_def)
  have cs': "target_alignment_counter s' =
      Some (fst (is_lane_aligned e c (ego_transform f) ?wp))"
    using c2 by (simp add: s')
  have 1: "target_alignment_counter s' =
      Some (if aligned_with_target_lane e (ego_transform f) ?wp then c + 1 else 0)"
    using cs' fst_eq by simp
  have 2: "info_target_alignment_counter (res_info res) =
      (if aligned_with_target_lane e (ego_transform f) ?wp then c + 1 else 0)"
    using inf c2 fst_eq by simp
  have 3: "scenario_finished_with_success l =
      (lane_id ?wp = lane_id tlw \<and> target_alignment_counter s' = Some 10)"
    using succ ont snd_eq cs' by simp
  have 4: "res_done res = (scenario_finished_with_success l \<or> early_stop l)"
    using dn dfl by simp
  have 5: "res_reward res = of_bool (reward_type s = DENSE) * progress_change l
              + of_bool (scenario_finished_with_success l) + of_bool (early_stop l) * (- 1)"
    using rw rwl by simp
  from b ont 3 4 5 have "\<exists>l s2. step_body e s f = Inr (l, s2) \<and>
            on_target_lane l = (lane_id ?wp = lane_id tlw) \<and>
            scenario_finished_with_success l =
              (lane_id ?wp = lane_id tlw \<and> target_alignment_counter s' = Some 10) \<and>
            res_done res = (scenario_finished_with_success l \<or> early_stop l) \<and>
            res_reward res =
              of_bool (reward_type s = DENSE) * progress_change l
              + of_bool (scenario_finished_with_success l) + of_bool (early_stop l) * (- 1)"
    by blast
  with 1 2 show ?thesis
    by blast
qed

theorem alignment_check_every_step_witness:
  "step three_lane_road (mid_episode 3 0) (frame_at 0 1 0 False) =
     Inr (\<lparr> res_chauffeur_command = CHANGE_LANE_LEFT, res_reward = 2 / 10, res_done = False,
            res_info = \<lparr> info_road = ''US101'', info_timeslice = ''0750am-0805am'',
                         info_frame = 150, info_dataset_mode = TRAIN, info_reward_type = DENSE,
                         info_target_alignment_counter = 0 \<rparr> \<rparr>,
          mid_episode 0 (2 / 10)) \<and>
   target_alignment_counter (mid_episode 3 0) = Some 3 \<and>
   target_lane_waypoint (mid_episode 3 0) = Some (lane_waypoint 2 0) \<and>
   \<not> aligned_with_target_lane three_lane_road (ego_transform (frame_at 0 1 0 False))
       (get_waypoint three_lane_road (location (ego_transform (frame_at 0 1 0 False)))) \<and>
   lane_id (get_waypoint three_lane_road (location (ego_transform (frame_at 0 1 0 False)))) \<noteq>
     lane_id (lane_waypoint 2 0) \<and>
   target_alignment_counter (mid_episode 0 (2 / 10)) = Some 0 \<and>
   (\<exists>l s2. step_body three_lane_road (mid_episode 3 0) (frame_at 0 1 0 False) = Inr (l, s2) \<and>
      \<not> on_target_lane l \<and> \<not> scenario_finished_with_success l)"
proof -
  note h1 = step_on_start_off_centre
  have h2: "target_alignment_counter (mid_episode 3 0) = Some 3"
    and h3: "target_lane_waypoint (mid_episode 3 0) = Some (lane_waypoint 2 0)"
    by (simp_all add: mid_episode_def)
  have na: "\<not> aligned_with_target_lane three_lane_road (ego_transform (frame_at 0 1 0 False))
       (get_waypoint three_lane_road (location (ego_transform (frame_at 0 1 0 False))))"
    by (simp add: eval_simps)
  have nl: "lane_id (get_waypoint three_lane_road (location (ego_transform (frame_at 0 1 0 False)))) \<noteq>
     lane_id (lane_waypoint 2 0)"
    by (simp add: eval_simps)
  from alignment_check_every_step[OF h1 h2 h3] h1 h2 h3 na nl show ?thesis
    by auto
qed

subsection \<open>The yaw condition\<close>

text \<open>
  Claim C10. The yaw error is compared as it is, with no absolute value. When the
  normalized heading difference is negative, whatever its size, the yaw condition
  holds: the frame is aligned exactly when the crosstrack error is below 0.3, and the
  counter is incremented or reset on that alone. The example below is a heading
  90 degrees off the lane's.
\<close>

theorem negative_yaw_error_passes:
  assumes "yaw_error e t w < 0"
  shows "aligned_with_target_lane e t w = (crosstrack_error e t w < 3 / 10) \<and>
         is_lane_aligned e c t w =
           (if crosstrack_error e t w < 3 / 10 then (c + 1, c + 1 = 10) else (0, False))"
proof -
  have "0 < deg2rad YAW_DEG_ERRORS_TOLERANCE"
    by (simp add: deg2rad_def YAW_DEG_ERRORS_TOLERANCE_def)
  with assms have "yaw_error e t w < deg2rad YAW_DEG_ERRORS_TOLERANCE"
    by linarith
  then show ?thesis
    by (simp add: aligned_with_target_lane_def is_lane_aligned_def
        CROSSTRACK_ERROR_TOLERANCE_def TARGET_LANE_ALIGNMENT_FRAMES_def)
qed

theorem negative_yaw_error_passes_witness:
  "yaw_error three_lane_road (pose 0 4 (- 90)) (lane_waypoint 2 0) < 0 \<and>
   aligned_with_target_lane three_lane_road (pose 0 4 (- 90)) (lane_waypoint 2 0) \<and>
   is_lane_aligned three_lane_road 9 (pose 0 4 (- 90)) (lane_waypoint 2 0) = (10, True)"
proof -
  have h: "yaw_error three_lane_road (pose 0 4 (- 90)) (lane_waypoint 2 0) < 0"
    by (simp add: yaw_error_minus_90)
  have c: "crosstrack_error three_lane_road (pose 0 4 (- 90)) (lane_waypoint 2 0) = 0"
    by (simp add: eval_simps)
  show ?thesis
    using negative_yaw_error_passes[OF h, of 9] h c by simp
qed

subsection \<open>The train/validation split\<close>

lemma char_sum_timeslot: "char_sum ''0750am-0805am'' = 866"
  by (simp add: char_sum_def)

lemma left_change_split: "determine_split char_sum instant_key left_change = TRAIN"
  by (simp add: determine_split_def instant_key_def left_change_def char_sum_timeslot)

subsection \<open>Construction and reset\<close>

text \<open>
  Claim C7 says that construction fails when no instant belongs to the requested mode.
  \<^verbatim>\<open>__init__\<close> has no such check: the only instant of this recording is a TRAIN
  instant, the requested mode is VALIDATION, and construction returns an object whose
  list of instants is empty.
\<close>

theorem empty_partition_construction_counterexample:
  "determine_split char_sum instant_key left_change = TRAIN \<and>
   init char_sum instant_key [left_change] ''US101'' VALIDATION DENSE =
     Inr \<lparr> ngsim_recording = Some (), ngsim_dataset = ''US101'', ngsim_vehicles_in_carla = None,
           target_alignment_counter = None, dataset_mode = VALIDATION, early_stop_monitor = None,
           lane_change_instants = [],
           reward_type = DENSE, lane_change = None, previous_chauffeur_command = None,
           previous_progress = None, total_distance_m = None, checkpoints_distance_m = None,
           start_lane_waypoint = None, target_lane_waypoint = None \<rparr>"
  by (simp add: init_def left_change_split)

text \<open>
  Claim C7, amended. When no instant of the recording belongs to the requested mode,
  construction completes and the object holds an empty list of instants; the failure
  comes at the first \<^verbatim>\<open>reset\<close>, where \<^verbatim>\<open>random.choice\<close> raises \<^verbatim>\<open>IndexError\<close> on the
  empty list, whatever the draw and the vehicles.
\<close>

theorem empty_partition_fails_at_reset:
  assumes "filter (\<lambda>lci. determine_split sha1_int str_of lci = mode) instants = []"
  shows "\<exists>s. init sha1_int str_of instants name mode rtype = Inr s \<and>
             lane_change_instants s = [] \<and>
             reset e s r vehicles = Inl IndexError"
  using assms by (simp add: init_def reset_def random_choice_def)

theorem empty_partition_fails_at_reset_witness:
  "filter (\<lambda>lci. determine_split char_sum instant_key lci = VALIDATION) [left_change] = [] \<and>
   (\<exists>s. init char_sum instant_key [left_change] ''US101'' VALIDATION DENSE = Inr s \<and>
        lane_change_instants s = [] \<and>
        reset three_lane_road s 0 [agent_vehicle] = Inl IndexError)"
proof -
  have h: "filter (\<lambda>lci. determine_split char_sum instant_key lci = VALIDATION) [left_change] = []"
    by (simp add: left_change_split)
  from empty_partition_fails_at_reset[OF h] h show ?thesis
    by blast
qed

lemma reset_left_change:
  "reset three_lane_road
     \<lparr> ngsim_recording = Some (), ngsim_dataset = ''US101'', ngsim_vehicles_in_carla = None,
       target_alignment_counter = None, dataset_mode = TRAIN, early_stop_monitor = None,
       lane_change_instants = [left_change],
       reward_type = DENSE, lane_change = None, previous_chauffeur_command = None,
       previous_progress = None, total_distance_m = None, checkpoints_distance_m = None,
       start_lane_waypoint = None, target_lane_waypoint = None \<rparr> 0 [agent_vehicle] =
   Inr (\<lparr> recording_reset_timeslot = ''0750am-0805am'', recording_reset_frame = 79,
          vehicle_set_transform = pose 0 0 0, vehicles_in_carla_step = [] \<rparr>,
        (mid_episode 0 0) \<lparr> total_distance_m := None, checkpoints_distance_m := None \<rparr>)"
  by (simp add: reset_def random_choice_def agent_vehicle_def left_change_def eval_simps
      frame_manuveur_start_def)

text \<open>The first step after that reset, with the ego vehicle where it was placed, fixes
  the total distance at 4: the object is then \<open>mid_episode 1 0\<close>.\<close>

lemma first_step_after_reset:
  "step three_lane_road
     ((mid_episode 0 0) \<lparr> total_distance_m := None, checkpoints_distance_m := None \<rparr>)
     (frame_at 0 0 0 False) =
   Inr (\<lparr> res_chauffeur_command = CHANGE_LANE_LEFT, res_reward = 0, res_done = False,
          res_info = \<lparr> info_road = ''US101'', info_timeslice = ''0750am-0805am'',
                       info_frame = 150, info_dataset_mode = TRAIN, info_reward_type = DENSE,
                       info_target_alignment_counter = 1 \<rparr> \<rparr>,
        mid_episode 1 0)"
  by (simp add: eval_simps calc_progress_change_def)

text \<open>
  Claim C8. A reset that returns has selected an instant \<open>lc\<close> of the object's list;
  the start offset is \<open>max (frame_start lc - FRAMES_BEFORE_MANUVEUR) 0\<close>, and the
  recording is reset to the frame before it, in the instant's timeslot. With a frame
  start of 100 and 20 frames before the maneuver, that frame is 79.
\<close>

theorem replay_start_frame:
  assumes "reset e s r vehicles = Inr (calls, s')"
  shows "(\<exists>lc. lane_change s' = Some lc \<and> lc \<in> set (lane_change_instants s) \<and>
            frame_manuveur_start e lc = max (frame_start lc - FRAMES_BEFORE_MANUVEUR e) 0 \<and>
            recording_reset_frame calls = frame_manuveur_start e lc - 1 \<and>
            recording_reset_timeslot calls = timeslot lc) \<and>
         frame_manuveur_start (e0 \<lparr> FRAMES_BEFORE_MANUVEUR := 20 \<rparr>)
           (lc0 \<lparr> frame_start := 100 \<rparr>) - 1 = 79"
  using assms unfolding reset_def Let_def
  apply (elim bind_rE)
  apply (auto simp: random_choice_def frame_manuveur_start_def split: if_splits)
  done

theorem replay_start_frame_witness:
  "reset three_lane_road
     \<lparr> ngsim_recording = Some (), ngsim_dataset = ''US101'', ngsim_vehicles_in_carla = None,
       target_alignment_counter = None, dataset_mode = TRAIN, early_stop_monitor = None,
       lane_change_instants = [left_change],
       reward_type = DENSE, lane_change = None, previous_chauffeur_command = None,
       previous_progress = None, total_distance_m = None, checkpoints_distance_m = None,
       start_lane_waypoint = None, target_lane_waypoint = None \<rparr> 0 [agent_vehicle] =
   Inr (\<lparr> recording_reset_timeslot = ''0750am-0805am'', recording_reset_frame = 79,
          vehicle_set_transform = pose 0 0 0, vehicles_in_carla_step = [] \<rparr>,
        (mid_episode 0 0) \<lparr> total_distance_m := None, checkpoints_distance_m := None \<rparr>) \<and>
   frame_start left_change = 100 \<and> FRAMES_BEFORE_MANUVEUR three_lane_road = 20 \<and>
   frame_manuveur_start three_lane_road left_change = 80 \<and>
   (\<exists>lc. lane_change ((mid_episode 0 0) \<lparr> total_distance_m := None,
                                             checkpoints_distance_m := None \<rparr>) = Some lc \<and>
      recording_reset_frame
        \<lparr> recording_reset_timeslot = ''0750am-0805am'', recording_reset_frame = 79,
          vehicle_set_transform = pose 0 0 0, vehicles_in_carla_step = [] \<rparr> =
        frame_manuveur_start three_lane_road lc - 1)"
proof -
  note h = reset_left_change
  have v: "frame_start left_change = 100" "FRAMES_BEFORE_MANUVEUR three_lane_road = 20"
    "frame_manuveur_start three_lane_road left_change = 80"
    by (simp_all add: left_change_def road_simps frame_manuveur_start_def)
  from replay_start_frame[OF h] h v show ?thesis
    by blast
qed

subsection \<open>What a returning progress query computed\<close>

lemma calc_progress_change_Inr:
  assumes "calc_progress_change s sw tw loc = Inr (ch, s')"
  shows "\<exists>swp twp tot cd p.
           sw = Some swp \<and> tw = Some twp \<and> total_distance_m s = Some tot \<and>
           checkpoints_distance_m s = Some cd \<and> cd \<noteq> 0 \<and> previous_progress s = Some p \<and>
           ch = of_bool (\<not> passed_target_centerline tot (distance loc (location (transform swp)))
                             (distance loc (location (transform twp))))
                  * (of_int (py_int ((tot - distance loc (location (transform twp))) / cd)) / 10) - p \<and>
           s' = s \<lparr> previous_progress :=
                      Some (of_bool (\<not> passed_target_centerline tot
                                         (distance loc (location (transform swp)))
                                         (distance loc (location (transform twp))))
                            * (of_int (py_int ((tot - distance loc (location (transform twp))) / cd))
                               / 10)) \<rparr>"
  using assms unfolding calc_progress_change_def Let_def
  apply (elim bind_rE)
  apply (simp only: attr_Inr operand_Inr)
  apply (simp split: if_splits)
  apply (elim bind_rE)
  apply (auto simp: operand_Inr)
  done

lemma calc_progress_change_eq:
  assumes "total_distance_m s = Some tot" and "checkpoints_distance_m s = Some cd"
    and "cd \<noteq> 0" and "previous_progress s = Some p"
  shows "calc_progress_change s (Some sw) (Some tw) loc =
     Inr (of_bool (\<not> passed_target_centerline tot (distance loc (location (transform sw)))
                             (distance loc (location (transform tw))))
                  * (of_int (py_int ((tot - distance loc (location (transform tw))) / cd)) / 10) - p,
          s \<lparr> previous_progress :=
                      Some (of_bool (\<not> passed_target_centerline tot
                                         (distance loc (location (transform sw)))
                                         (distance loc (location (transform tw))))
                            * (of_int (py_int ((tot - distance loc (location (transform tw))) / cd))
                               / 10)) \<rparr>)"
  using assms by (simp add: calc_progress_change_def Let_def)

lemma get_progress_change_cases:
  assumes "get_progress_change e s t = Inr (ch, s')"
  obtains (calc) tlw sw tw where "target_lane_waypoint s = Some tlw"
      and "calc_progress_change (fix_total_distance s (location t) tlw) sw tw (location t) =
             Inr (ch, s')"
    | (neither) tlw where "target_lane_waypoint s = Some tlw"
      and "ch = 0" and "s' = fix_total_distance s (location t) tlw"
proof -
  from assms obtain slw tlw where
    slw: "start_lane_waypoint s = Some slw" and tlw: "target_lane_waypoint s = Some tlw"
    unfolding get_progress_change_def Let_def
    by (elim bind_rE) (simp only: attr_Inr)
  let ?wp = "get_waypoint e (location t)"
  let ?s1 = "fix_total_distance s (location t) tlw"
  from assms slw tlw have body:
    "(if lane_id ?wp = lane_id slw then
        bind_r (attr (lane_change ?s1)) (\<lambda>lc.
        bind_r (lane_towards e (chauffeur_command lc) ?wp) (\<lambda>target_waypoint.
          calc_progress_change ?s1 (Some ?wp) target_waypoint (location t)))
      else if lane_id ?wp = lane_id tlw then
        bind_r (attr (lane_change ?s1)) (\<lambda>lc.
        bind_r (lane_against e (chauffeur_command lc) ?wp) (\<lambda>start_waypoint.
          calc_progress_change ?s1 start_waypoint (Some ?wp) (location t)))
      else Inr (0, ?s1)) = Inr (ch, s')"
    unfolding get_progress_change_def Let_def by simp
  show thesis
  proof (cases "lane_id ?wp = lane_id slw")
    case True
    with body show thesis
      by (auto elim!: bind_rE intro: calc[OF tlw])
  next
    case False
    note ns = this
    show thesis
    proof (cases "lane_id ?wp = lane_id tlw")
      case True
      with body ns show thesis
        by (auto elim!: bind_rE intro: calc[OF tlw])
    next
      case False
      with body ns show thesis
        by (auto intro: neither[OF tlw])
    qed
  qed
qed




lemma py_int_le:
  assumes "x \<le> of_int k" and "0 \<le> k"
  shows "py_int x \<le> k"
proof (cases "0 \<le> x")
  case True
  with assms show ?thesis
    by (simp add: py_int_def floor_le_iff)
next
  case False
  then have "\<lceil>x\<rceil> \<le> 0"
    by (simp add: ceiling_le_iff)
  moreover from False have "py_int x = \<lceil>x\<rceil>"
    by (simp add: py_int_def)
  ultimately show ?thesis
    using assms(2) by linarith
qed

lemma calc_progress_le_1:
  assumes "0 < tot"
  shows "of_bool b * (of_int (py_int ((tot - distance p q) / (tot / 10))) / 10) \<le> (1::real)"
proof -
  have "(tot - distance p q) / (tot / 10) \<le> 10"
    using assms distance_nonneg[of p q] by (simp add: field_simps)
  then have "py_int ((tot - distance p q) / (tot / 10)) \<le> 10"
    using py_int_le[of _ 10] by simp
  then have "(of_int (py_int ((tot - distance p q) / (tot / 10))) :: real) \<le> 10"
    by linarith
  then show ?thesis
    by (cases b) simp_all
qed

lemma calc_passed:
  assumes "total_distance_m s = Some tot" and "checkpoints_distance_m s = Some cd"
    and "cd \<noteq> 0" and "previous_progress s = Some p"
    and "passed_target_centerline tot (distance loc (location (transform sw)))
           (distance loc (location (transform tw)))"
  shows "calc_progress_change s (Some sw) (Some tw) loc =
           Inr (- p, s \<lparr> previous_progress := Some 0 \<rparr>)"
  using assms by (simp add: calc_progress_change_eq)

lemma bind_r_returns:
  "(\<not> isl (bind_r m k)) = (\<exists>x. m = Inr x \<and> \<not> isl (k x))"
  by (cases m) simp_all

lemma calc_progress_change_returns:
  "(\<not> isl (calc_progress_change s sw tw loc)) =
     (sw \<noteq> None \<and> tw \<noteq> None \<and> total_distance_m s \<noteq> None \<and>
      (\<exists>cd. checkpoints_distance_m s = Some cd \<and> cd \<noteq> 0) \<and> previous_progress s \<noteq> None)"
  by (cases sw; cases tw; cases "total_distance_m s"; cases "checkpoints_distance_m s";
      cases "previous_progress s")
     (simp_all add: calc_progress_change_def Let_def)

lemma get_progress_change_returns:
  "(\<not> isl (get_progress_change e s t)) =
     (\<exists>slw tlw. start_lane_waypoint s = Some slw \<and> target_lane_waypoint s = Some tlw \<and>
        (if lane_id (get_waypoint e (location t)) = lane_id slw then
           (\<exists>lc twp. lane_change s = Some lc \<and>
              lane_towards e (chauffeur_command lc) (get_waypoint e (location t)) = Inr (Some twp)) \<and>
           (\<exists>cd. checkpoints_distance_m (fix_total_distance s (location t) tlw) = Some cd \<and> cd \<noteq> 0) \<and>
           previous_progress s \<noteq> None
         else if lane_id (get_waypoint e (location t)) = lane_id tlw then
           (\<exists>lc swp. lane_change s = Some lc \<and>
              lane_against e (chauffeur_command lc) (get_waypoint e (location t)) = Inr (Some swp)) \<and>
           (\<exists>cd. checkpoints_distance_m (fix_total_distance s (location t) tlw) = Some cd \<and> cd \<noteq> 0) \<and>
           previous_progress s \<noteq> None
         else True))"
proof -
  have lc: "lane_change (fix_total_distance s l w) = lane_change s" for l w
    by (simp add: fix_total_distance_def Let_def)
  have pp: "previous_progress (fix_total_distance s l w) = previous_progress s" for l w
    by (simp add: fix_total_distance_def Let_def)
  have td: "total_distance_m (fix_total_distance s l w) \<noteq> None" for l w
    by (simp add: fix_total_distance_def Let_def)
  show ?thesis
    unfolding get_progress_change_def Let_def
    by (cases "start_lane_waypoint s"; cases "target_lane_waypoint s"; cases "lane_change s")
       (auto simp: bind_r_returns calc_progress_change_returns lc pp td)
qed

lemma get_progress_change_post:
  assumes "get_progress_change e s t = Inr (ch, s')"
  shows "\<exists>tlw. target_lane_waypoint s = Some tlw \<and>
           (s' = fix_total_distance s (location t) tlw \<or>
            (\<exists>p'. s' = (fix_total_distance s (location t) tlw) \<lparr> previous_progress := Some p' \<rparr>))"
  using assms
proof (cases rule: get_progress_change_cases)
  case (calc tlw sw tw)
  from calc_progress_change_Inr[OF calc(2)] calc(1) show ?thesis
    by blast
next
  case (neither tlw)
  then show ?thesis
    by blast
qed

lemma fix_total_distance_simps:
  "start_lane_waypoint (fix_total_distance s l w) = start_lane_waypoint s"
  "target_lane_waypoint (fix_total_distance s l w) = target_lane_waypoint s"
  "lane_change (fix_total_distance s l w) = lane_change s"
  "previous_progress (fix_total_distance s l w) = previous_progress s"
  "ngsim_recording (fix_total_distance s l w) = ngsim_recording s"
  "ngsim_vehicles_in_carla (fix_total_distance s l w) = ngsim_vehicles_in_carla s"
  "early_stop_monitor (fix_total_distance s l w) = early_stop_monitor s"
  "target_alignment_counter (fix_total_distance s l w) = target_alignment_counter s"
  by (simp_all add: fix_total_distance_def Let_def)

lemma fix_total_distance_total:
  "\<exists>y. total_distance_m (fix_total_distance s l w) = Some y"
  by (cases "total_distance_m s") (simp_all add: fix_total_distance_def Let_def)

lemma fix_total_distance_idem:
  "total_distance_m s = Some y \<Longrightarrow> fix_total_distance s l w = s"
  by (simp add: fix_total_distance_def Let_def)

lemma get_progress_change_again:
  assumes "get_progress_change e s t = Inr (ch, s')"
  shows "\<not> isl (get_progress_change e
                  (s' \<lparr> previous_chauffeur_command := d, target_alignment_counter := c \<rparr>) t)"
proof -
  from assms have r: "\<not> isl (get_progress_change e s t)"
    by simp
  from get_progress_change_post[OF assms] obtain tlw where
    tlw: "target_lane_waypoint s = Some tlw"
    and alt: "s' = fix_total_distance s (location t) tlw \<or>
            (\<exists>p'. s' = (fix_total_distance s (location t) tlw) \<lparr> previous_progress := Some p' \<rparr>)"
    by blast
  let ?s1 = "fix_total_distance s (location t) tlw"
  from alt have f: "start_lane_waypoint s' = start_lane_waypoint s"
    "target_lane_waypoint s' = target_lane_waypoint s"
    "lane_change s' = lane_change s"
    "checkpoints_distance_m s' = checkpoints_distance_m ?s1"
    "previous_progress s \<noteq> None \<longrightarrow> previous_progress s' \<noteq> None"
    by (auto simp: fix_total_distance_simps)
  from alt fix_total_distance_total[of s "location t" tlw] obtain y where
    y: "total_distance_m s' = Some y"
    by auto
  let ?s3 = "s' \<lparr> previous_chauffeur_command := d, target_alignment_counter := c \<rparr>"
  have fix3: "fix_total_distance ?s3 (location t) w = ?s3" for w
    by (rule fix_total_distance_idem[of _ y]) (simp add: y)
  from r tlw f show ?thesis
    unfolding get_progress_change_returns fix3
    by (auto split: if_splits)
qed

lemma returns_pair: "(\<exists>a b. m = Inr (a, b)) = (\<not> isl m)"
  by (cases m) auto

lemma step_body_returns:
  "(\<not> isl (step_body e s f)) =
     (ngsim_recording s \<noteq> None \<and> (ngsim_vehicles f = [] \<or> lane_change s \<noteq> None) \<and>
      ngsim_vehicles_in_carla s \<noteq> None \<and>
      (\<exists>slw tlw c. start_lane_waypoint s = Some slw \<and> target_lane_waypoint s = Some tlw \<and>
         target_alignment_counter s = Some c \<and>
         (lane_id (get_waypoint e (location (ego_transform f))) = lane_id slw \<longrightarrow>
            lane_change s \<noteq> None) \<and>
         (\<not> (lane_id (get_waypoint e (location (ego_transform f))) = lane_id tlw \<and>
              snd (is_lane_aligned e c (ego_transform f)
                    (get_waypoint e (location (ego_transform f))))) \<longrightarrow>
            early_stop_monitor s \<noteq> None) \<and>
         \<not> isl (get_progress_change e
                  (s \<lparr> target_alignment_counter :=
                         Some (fst (is_lane_aligned e c (ego_transform f)
                                     (get_waypoint e (location (ego_transform f))))) \<rparr>)
                  (ego_transform f))))"
  unfolding step_body_def Let_def case_prod_beta
  by (cases "ngsim_recording s"; cases "lane_change s"; cases "ngsim_vehicles_in_carla s";
      cases "start_lane_waypoint s"; cases "target_lane_waypoint s";
      cases "target_alignment_counter s"; cases "early_stop_monitor s")
     (auto simp: bind_r_returns returns_pair)

lemma get_progress_change_fields:
  assumes "get_progress_change e s t = Inr (ch, s')"
  shows "ngsim_recording s' = ngsim_recording s \<and>
         ngsim_vehicles_in_carla s' = ngsim_vehicles_in_carla s \<and>
         early_stop_monitor s' = early_stop_monitor s \<and>
         lane_change s' = lane_change s \<and>
         start_lane_waypoint s' = start_lane_waypoint s \<and>
         target_lane_waypoint s' = target_lane_waypoint s \<and>
         target_alignment_counter s' = target_alignment_counter s"
  using get_progress_change_post[OF assms]
  by (auto simp: fix_total_distance_simps)

lemma step_returns:
  "(\<not> isl (step e s f)) = (\<not> isl (step_body e s f) \<and> lane_change s \<noteq> None)"
proof (cases "step_body e s f")
  case (Inl err)
  then show ?thesis
    by (simp add: step_def)
next
  case (Inr r)
  obtain l s2 where r: "r = (l, s2)"
    by (cases r)
  from step_body_Inr[OF Inr[unfolded r]] obtain c where
    c: "target_alignment_counter s = Some c"
    and g: "get_progress_change e
       (s \<lparr> target_alignment_counter :=
              Some (fst (is_lane_aligned e c (ego_transform f)
                          (get_waypoint e (location (ego_transform f))))) \<rparr>)
       (ego_transform f) = Inr (progress_change l, s2)"
    by blast
  from Inr have "\<not> isl (step_body e s f)"
    by simp
  then have rec: "ngsim_recording s \<noteq> None"
    unfolding step_body_returns by blast
  from get_progress_change_fields[OF g] rec have
    "ngsim_recording s2 \<noteq> None" "lane_change s2 = lane_change s"
    "target_alignment_counter s2 \<noteq> None"
    by simp_all
  with Inr r show ?thesis
    by (cases "lane_change s") (auto simp: step_def Let_def)
qed

lemma step_again:
  assumes "step e s f = Inr (res, s')"
    and "early_stop_monitor s \<noteq> None"
  shows "\<not> isl (step e s' f)"
proof -
  from step_Inr[OF assms(1)] obtain l s2 where
    b: "step_body e s f = Inr (l, s2)"
    and s': "s' = s2 \<lparr> previous_chauffeur_command := Some (chauffeur_command_now l) \<rparr>"
    by blast
  from step_body_Inr[OF b] obtain slw tlw c where
    slw: "start_lane_waypoint s = Some slw" and tlw: "target_lane_waypoint s = Some tlw"
    and c: "target_alignment_counter s = Some c"
    and g: "get_progress_change e
       (s \<lparr> target_alignment_counter :=
              Some (fst (is_lane_aligned e c (ego_transform f)
                          (get_waypoint e (location (ego_transform f))))) \<rparr>)
       (ego_transform f) = Inr (progress_change l, s2)"
    by blast
  from assms(1) have "\<not> isl (step e s f)"
    by simp
  then have first: "\<not> isl (step_body e s f)" and lc: "lane_change s \<noteq> None"
    unfolding step_returns by simp_all
  from first have rec: "ngsim_recording s \<noteq> None" and vic: "ngsim_vehicles_in_carla s \<noteq> None"
    unfolding step_body_returns by blast+
  note fl = get_progress_change_fields[OF g]
  have again: "\<not> isl (get_progress_change e (s' \<lparr> target_alignment_counter := x \<rparr>) (ego_transform f))"
    for x
    unfolding s' by (rule get_progress_change_again[OF g])
  have "\<not> isl (step_body e s' f)"
    unfolding step_body_returns
    using fl rec vic lc slw tlw assms(2) again
    by (simp add: s')
  moreover have "lane_change s' \<noteq> None"
    using fl lc by (simp add: s')
  ultimately show ?thesis
    unfolding step_returns by simp
qed

subsection \<open>The progress scorer's bounds\<close>

lemma query_off_centre_right:
  "get_progress_change three_lane_road (mid_episode 1 0) (pose 0 (- 18 / 10) 0) =
     Inr (- 4 / 10, mid_episode 1 (- 4 / 10))"
  by (simp add: eval_simps calc_progress_change_def py_int_def)

lemma query_target_centre_after:
  "get_progress_change three_lane_road (mid_episode 1 (- 4 / 10)) (pose 0 4 0) =
     Inr (14 / 10, mid_episode 1 1)"
  by (simp add: eval_simps calc_progress_change_def)

text \<open>
  Nothing clamps the progress change: the two queries above, a jump of 5.8 sideways
  between consecutive frames, return -0.4 and then 1.4. The bound rests on the agent
  moving by at most one checkpoint span a frame.
\<close>






















text \<open>
  Claim C4. Every query of \<^verbatim>\<open>_calc_progress_change\<close> in which
  \<open>passed_target_centerline\<close> holds computes a progress of 0 (on an object whose
  checkpoint distance is not 0, so that the division returns). Once the condition has
  become true, the frames that follow in that direction are the queries in which it
  still holds: in a run of such queries the first returns minus the previous progress,
  every subsequent one returns a progress change of 0, and the previous progress is 0
  after each of them.
\<close>

theorem overshoot_clamp_while_passed:
  assumes "total_distance_m s = Some tot" and "checkpoints_distance_m s = Some cd"
    and "cd \<noteq> 0" and "previous_progress s = Some p"
    and "list_all (\<lambda>(sw, tw, loc).
            passed_target_centerline tot (distance loc (location (transform sw)))
              (distance loc (location (transform tw)))) (q # qs)"
  shows "run_calc s (q # qs) =
           Inr (- p # replicate (length qs) 0, s \<lparr> previous_progress := Some 0 \<rparr>)"
proof -
  have rest: "run_calc (s \<lparr> previous_progress := Some 0 \<rparr>) qs =
                Inr (replicate (length qs) 0, s \<lparr> previous_progress := Some 0 \<rparr>)"
    if "list_all (\<lambda>(sw, tw, loc).
            passed_target_centerline tot (distance loc (location (transform sw)))
              (distance loc (location (transform tw)))) qs" for qs
    using that
  proof (induction qs)
    case Nil
    then show ?case by simp
  next
    case (Cons a qs)
    obtain sw tw loc where a: "a = (sw, tw, loc)"
      by (cases a)
    from Cons.prems a have
      "passed_target_centerline tot (distance loc (location (transform sw)))
         (distance loc (location (transform tw)))"
      by simp
    then have "calc_progress_change (s \<lparr> previous_progress := Some 0 \<rparr>) (Some sw) (Some tw) loc =
            Inr (- 0, s \<lparr> previous_progress := Some 0 \<rparr>)"
      using calc_passed[of "s \<lparr> previous_progress := Some 0 \<rparr>" tot cd 0 loc sw tw] assms(1-3)
      by simp
    with Cons a show ?case
      by simp
  qed
  obtain sw tw loc where q: "q = (sw, tw, loc)"
    by (cases q)
  from assms(5) q have
    "passed_target_centerline tot (distance loc (location (transform sw)))
       (distance loc (location (transform tw)))"
    and "list_all (\<lambda>(sw, tw, loc).
            passed_target_centerline tot (distance loc (location (transform sw)))
              (distance loc (location (transform tw)))) qs"
    by simp_all
  with calc_passed[OF assms(1-4)] rest q show ?thesis
    by simp
qed

theorem overshoot_clamp_while_passed_witness:
  "total_distance_m (mid_episode 10 1) = Some 4 \<and>
   checkpoints_distance_m (mid_episode 10 1) = Some (4 / 10) \<and>
   (4 / 10 :: real) \<noteq> 0 \<and>
   previous_progress (mid_episode 10 1) = Some 1 \<and>
   list_all (\<lambda>(sw, tw, loc).
       passed_target_centerline 4 (distance loc (location (transform sw)))
         (distance loc (location (transform tw))))
     [(lane_waypoint 1 0, lane_waypoint 2 0, at_xy 0 5),
      (lane_waypoint 1 0, lane_waypoint 2 0, at_xy 0 (11 / 2))] \<and>
   run_calc (mid_episode 10 1)
     [(lane_waypoint 1 0, lane_waypoint 2 0, at_xy 0 5),
      (lane_waypoint 1 0, lane_waypoint 2 0, at_xy 0 (11 / 2))] =
     Inr ([- 1, 0], (mid_episode 10 1) \<lparr> previous_progress := Some 0 \<rparr>)"
proof -
  have h1: "total_distance_m (mid_episode 10 1) = Some 4"
    and h2: "checkpoints_distance_m (mid_episode 10 1) = Some (4 / 10)"
    and h4: "previous_progress (mid_episode 10 1) = Some 1"
    by (simp_all add: mid_episode_def)
  have h3: "(4 / 10 :: real) \<noteq> 0"
    by simp
  have h5: "list_all (\<lambda>(sw, tw, loc).
       passed_target_centerline 4 (distance loc (location (transform sw)))
         (distance loc (location (transform tw))))
     [(lane_waypoint 1 0, lane_waypoint 2 0, at_xy 0 5),
      (lane_waypoint 1 0, lane_waypoint 2 0, at_xy 0 (11 / 2))]"
    by (simp add: passed_target_centerline_def lane_waypoint_simps distance_at_xy)
  from overshoot_clamp_while_passed[OF h1 h2 h3 h4 h5] h1 h2 h3 h4 h5 show ?thesis
    by simp
qed

subsection \<open>The split is a function of the identity string\<close>

text \<open>Neither \<^verbatim>\<open>reset\<close> nor \<^verbatim>\<open>step\<close> (with the progress query inside it) writes the
  list of instants or the dataset mode.\<close>

lemma fix_total_distance_partition:
  "lane_change_instants (fix_total_distance s l w) = lane_change_instants s"
  "dataset_mode (fix_total_distance s l w) = dataset_mode s"
  by (simp_all add: fix_total_distance_def Let_def)

lemma get_progress_change_partition:
  assumes "get_progress_change e s t = Inr (ch, s')"
  shows "lane_change_instants s' = lane_change_instants s \<and> dataset_mode s' = dataset_mode s"
  using get_progress_change_post[OF assms]
  by (auto simp: fix_total_distance_partition)

lemma step_partition:
  assumes "step e s f = Inr (res, s')"
  shows "lane_change_instants s' = lane_change_instants s \<and> dataset_mode s' = dataset_mode s"
proof -
  from step_Inr[OF assms] obtain l s2 where
    b: "step_body e s f = Inr (l, s2)"
    and s': "s' = s2 \<lparr> previous_chauffeur_command := Some (chauffeur_command_now l) \<rparr>"
    by blast
  from step_body_Inr[OF b] obtain c where
    g: "get_progress_change e
       (s \<lparr> target_alignment_counter :=
              Some (fst (is_lane_aligned e c (ego_transform f)
                          (get_waypoint e (location (ego_transform f))))) \<rparr>)
       (ego_transform f) = Inr (progress_change l, s2)"
    by blast
  from get_progress_change_partition[OF g] show ?thesis
    by (simp add: s')
qed

lemma reset_partition:
  assumes "reset e s r vehicles = Inr (calls, s')"
  shows "lane_change_instants s' = lane_change_instants s \<and> dataset_mode s' = dataset_mode s"
  using assms unfolding reset_def Let_def
  by (elim bind_rE) auto

lemma determine_split_threshold:
  "determine_split sha1_int str_of l =
      (if sha1_int (str_of l) mod 100 < 80 then TRAIN else VALIDATION)"
proof -
  have "(real (sha1_int (str_of l) mod 100) / 100 < 8 / 10) =
        (real (sha1_int (str_of l) mod 100) < real 80)"
    by (simp add: field_simps)
  also have "\<dots> = (sha1_int (str_of l) mod 100 < 80)"
    by (simp only: of_nat_less_iff)
  finally show ?thesis
    by (simp add: determine_split_def Let_def)
qed

lemma later_change_key: "instant_key later_change = instant_key left_change"
  by (simp add: instant_key_def later_change_def left_change_def)

text \<open>
  Claim C6. The partition of an instant is TRAIN exactly when the hash of its identity
  string modulo 100 is below 80 (the split fraction 0.8 times 100) and VALIDATION
  otherwise, and construction keeps the instants of the recording whose partition is
  the requested mode, in their order. The label is a function of the identity string
  alone: two instants with the same identity string get the same label, whichever
  object, call or run asks. It depends on no state and on no order: two constructions
  over the same set of instants, listed in any order and under any dataset name and
  reward type, keep the same instants for a mode; the TRAIN and the VALIDATION
  constructions divide the instants between them, every instant in exactly one; and
  neither \<^verbatim>\<open>reset\<close> nor \<^verbatim>\<open>step\<close> changes the list an object has kept or its mode.
  The SHA-1 digest and \<^verbatim>\<open>str\<close> are library functions, parameters here: the label
  is the same across runs because they are functions of their argument.
\<close>

theorem partition_is_hash_threshold:
  "(determine_split sha1_int str_of lci = TRAIN) = (sha1_int (str_of lci) mod 100 < 80) \<and>
   (determine_split sha1_int str_of lci = VALIDATION) = (80 \<le> sha1_int (str_of lci) mod 100) \<and>
   init sha1_int str_of instants name mode rtype =
     Inr \<lparr> ngsim_recording = Some (), ngsim_dataset = name, ngsim_vehicles_in_carla = None,
           target_alignment_counter = None, dataset_mode = mode, early_stop_monitor = None,
           lane_change_instants =
             filter (\<lambda>lci. (if sha1_int (str_of lci) mod 100 < 80 then TRAIN else VALIDATION) = mode)
               instants,
           reward_type = rtype, lane_change = None, previous_chauffeur_command = None,
           previous_progress = None, total_distance_m = None, checkpoints_distance_m = None,
           start_lane_waypoint = None, target_lane_waypoint = None \<rparr> \<and>
   (str_of a = str_of b \<longrightarrow>
      determine_split sha1_int str_of a = determine_split sha1_int str_of b) \<and>
   (set instants' = set instants \<longrightarrow>
      (\<exists>s1 s2. init sha1_int str_of instants name mode rtype = Inr s1 \<and>
         init sha1_int str_of instants' name' mode rtype' = Inr s2 \<and>
         set (lane_change_instants s2) = set (lane_change_instants s1))) \<and>
   (\<exists>st sv. init sha1_int str_of instants name TRAIN rtype = Inr st \<and>
      init sha1_int str_of instants name VALIDATION rtype = Inr sv \<and>
      set (lane_change_instants st) \<union> set (lane_change_instants sv) = set instants \<and>
      set (lane_change_instants st) \<inter> set (lane_change_instants sv) = {}) \<and>
   (reset e s r vehicles = Inr (calls, s') \<longrightarrow>
      lane_change_instants s' = lane_change_instants s \<and> dataset_mode s' = dataset_mode s) \<and>
   (step e t f = Inr (res, t') \<longrightarrow>
      lane_change_instants t' = lane_change_instants t \<and> dataset_mode t' = dataset_mode t)"
proof (intro conjI impI)
  note d = determine_split_threshold
  show "(determine_split sha1_int str_of lci = TRAIN) = (sha1_int (str_of lci) mod 100 < 80)"
    by (simp add: d)
  show "(determine_split sha1_int str_of lci = VALIDATION) = (80 \<le> sha1_int (str_of lci) mod 100)"
    by (simp add: d)
  show "init sha1_int str_of instants name mode rtype =
     Inr \<lparr> ngsim_recording = Some (), ngsim_dataset = name, ngsim_vehicles_in_carla = None,
           target_alignment_counter = None, dataset_mode = mode, early_stop_monitor = None,
           lane_change_instants =
             filter (\<lambda>lci. (if sha1_int (str_of lci) mod 100 < 80 then TRAIN else VALIDATION) = mode)
               instants,
           reward_type = rtype, lane_change = None, previous_chauffeur_command = None,
           previous_progress = None, total_distance_m = None, checkpoints_distance_m = None,
           start_lane_waypoint = None, target_lane_waypoint = None \<rparr>"
    by (simp add: init_def d)
  show "determine_split sha1_int str_of a = determine_split sha1_int str_of b"
    if "str_of a = str_of b"
    using that by (simp add: determine_split_def)
  show "\<exists>s1 s2. init sha1_int str_of instants name mode rtype = Inr s1 \<and>
         init sha1_int str_of instants' name' mode rtype' = Inr s2 \<and>
         set (lane_change_instants s2) = set (lane_change_instants s1)"
    if "set instants' = set instants"
    using that by (simp add: init_def)
  show "\<exists>st sv. init sha1_int str_of instants name TRAIN rtype = Inr st \<and>
      init sha1_int str_of instants name VALIDATION rtype = Inr sv \<and>
      set (lane_change_instants st) \<union> set (lane_change_instants sv) = set instants \<and>
      set (lane_change_instants st) \<inter> set (lane_change_instants sv) = {}"
  proof -
    have "determine_split sha1_int str_of x = TRAIN \<or> determine_split sha1_int str_of x = VALIDATION"
      for x
      by (cases "determine_split sha1_int str_of x") simp_all
    then show ?thesis
      by (auto simp: init_def)
  qed
  show "lane_change_instants s' = lane_change_instants s"
    and "dataset_mode s' = dataset_mode s"
    if "reset e s r vehicles = Inr (calls, s')"
    using reset_partition[OF that] by simp_all
  show "lane_change_instants t' = lane_change_instants t"
    and "dataset_mode t' = dataset_mode t"
    if "step e t f = Inr (res, t')"
    using step_partition[OF that] by simp_all
qed

theorem partition_is_hash_threshold_witness:
  "instant_key left_change = instant_key later_change \<and>
   determine_split char_sum instant_key left_change = TRAIN \<and>
   determine_split char_sum instant_key later_change = TRAIN \<and>
   set [later_change, left_change] = set [left_change, later_change] \<and>
   (\<exists>s1 s2. init char_sum instant_key [left_change, later_change] ''US101'' TRAIN DENSE = Inr s1 \<and>
      init char_sum instant_key [later_change, left_change] ''I80'' TRAIN SPARSE = Inr s2 \<and>
      lane_change_instants s1 = [left_change, later_change] \<and>
      lane_change_instants s2 = [later_change, left_change]) \<and>
   (\<exists>calls. reset three_lane_road
       \<lparr> ngsim_recording = Some (), ngsim_dataset = ''US101'', ngsim_vehicles_in_carla = None,
         target_alignment_counter = None, dataset_mode = TRAIN, early_stop_monitor = None,
         lane_change_instants = [left_change],
         reward_type = DENSE, lane_change = None, previous_chauffeur_command = None,
         previous_progress = None, total_distance_m = None, checkpoints_distance_m = None,
         start_lane_waypoint = None, target_lane_waypoint = None \<rparr> 0 [agent_vehicle] =
       Inr (calls, just_reset)) \<and>
   lane_change_instants just_reset = [left_change] \<and> dataset_mode just_reset = TRAIN \<and>
   (\<exists>res. step three_lane_road just_reset (frame_at 0 0 0 False) = Inr (res, mid_episode 1 0)) \<and>
   lane_change_instants (mid_episode 1 0) = [left_change] \<and>
   dataset_mode (mid_episode 1 0) = TRAIN"
proof -
  have h1: "instant_key left_change = instant_key later_change"
    by (simp add: later_change_key)
  have h2: "set [later_change, left_change] = set [left_change, later_change]"
    by auto
  note h3 = reset_left_change[folded just_reset_def]
  note h4 = first_step_after_reset[folded just_reset_def]
  note t = partition_is_hash_threshold[where sha1_int = char_sum and str_of = instant_key
      and lci = left_change and a = left_change and b = later_change
      and instants = "[left_change, later_change]" and instants' = "[later_change, left_change]"
      and name = "''US101''" and name' = "''I80''" and mode = TRAIN and rtype = DENSE
      and rtype' = SPARSE and e = three_lane_road and r = 0 and vehicles = "[agent_vehicle]"
      and s' = just_reset and t = just_reset and f = "frame_at 0 0 0 False"
      and t' = "mid_episode 1 0"]
  have tr: "determine_split char_sum instant_key left_change = TRAIN"
    by (rule left_change_split)
  have tr': "determine_split char_sum instant_key later_change = TRAIN"
    using t h1 tr by simp
  have k: "char_sum (instant_key left_change) mod 100 < 80"
    "char_sum (instant_key later_change) mod 100 < 80"
    using t tr tr' h1 by simp_all
  have i1: "lane_change_instants just_reset = [left_change]"
    and i2: "dataset_mode just_reset = TRAIN"
    and i3: "lane_change_instants (mid_episode 1 0) = [left_change]"
    and i4: "dataset_mode (mid_episode 1 0) = TRAIN"
    by (simp_all add: just_reset_def mid_episode_def)
  have c: "\<exists>s1 s2. init char_sum instant_key [left_change, later_change] ''US101'' TRAIN DENSE = Inr s1 \<and>
      init char_sum instant_key [later_change, left_change] ''I80'' TRAIN SPARSE = Inr s2 \<and>
      lane_change_instants s1 = [left_change, later_change] \<and>
      lane_change_instants s2 = [later_change, left_change]"
    using k by (simp add: init_def determine_split_threshold)
  from h1 tr tr' h2 c h3 h4 i1 i2 i3 i4 show ?thesis
    by blast
qed

subsection \<open>Step outside an episode\<close>

lemma step_after_done:
  "step three_lane_road ((mid_episode 10 1) \<lparr> previous_chauffeur_command := Some LANE_FOLLOW \<rparr>)
     (frame_at 0 4 0 False) =
   Inr (\<lparr> res_chauffeur_command = LANE_FOLLOW, res_reward = 0, res_done = False,
          res_info = \<lparr> info_road = ''US101'', info_timeslice = ''0750am-0805am'',
                       info_frame = 150, info_dataset_mode = TRAIN, info_reward_type = DENSE,
                       info_target_alignment_counter = 11 \<rparr> \<rparr>,
        (mid_episode 11 1) \<lparr> previous_chauffeur_command := Some LANE_FOLLOW \<rparr>)"
  by (simp add: eval_simps calc_progress_change_def)

lemma step_before_reset:
  assumes "ngsim_vehicles_in_carla s = None" and "lane_change s = None"
  shows "step e s f = Inl AttributeError"
  using assms
  by (cases "ngsim_recording s"; cases "ngsim_vehicles f = []")
     (simp_all add: step_def step_body_def)

text \<open>
  Claim C9 says that a step after a step that reported done, with no reset in between,
  fails. The object keeps no record of a step having reported done: after the step on
  which the maneuver completes (done is true), a further step on the same object
  returns a result like any other, here with done false and the counter at 11.
\<close>

theorem step_after_done_counterexample:
  "step three_lane_road (mid_episode 9 (9 / 10)) (frame_at 0 4 0 True) =
     Inr (\<lparr> res_chauffeur_command = LANE_FOLLOW, res_reward = 11 / 10, res_done = True,
            res_info = \<lparr> info_road = ''US101'', info_timeslice = ''0750am-0805am'',
                         info_frame = 150, info_dataset_mode = TRAIN, info_reward_type = DENSE,
                         info_target_alignment_counter = 10 \<rparr> \<rparr>,
          (mid_episode 10 1) \<lparr> previous_chauffeur_command := Some LANE_FOLLOW \<rparr>) \<and>
   step three_lane_road ((mid_episode 10 1) \<lparr> previous_chauffeur_command := Some LANE_FOLLOW \<rparr>)
     (frame_at 0 4 0 False) =
     Inr (\<lparr> res_chauffeur_command = LANE_FOLLOW, res_reward = 0, res_done = False,
            res_info = \<lparr> info_road = ''US101'', info_timeslice = ''0750am-0805am'',
                         info_frame = 150, info_dataset_mode = TRAIN, info_reward_type = DENSE,
                         info_target_alignment_counter = 11 \<rparr> \<rparr>,
          (mid_episode 11 1) \<lparr> previous_chauffeur_command := Some LANE_FOLLOW \<rparr>)"
  using step_on_target_complete step_after_done by simp

text \<open>
  Claim C9, amended. A step on a newly constructed object, before any reset, fails
  with \<^verbatim>\<open>AttributeError\<close> whatever the frame, and so does a step after \<^verbatim>\<open>close\<close>. A
  step after a step that reported done is not rejected: when a step has returned a
  result with done true on an object that holds an early-stop monitor, the same frame
  stepped again on the resulting object returns a result too.
\<close>

theorem step_outside_episode:
  "(\<exists>s0. init sha1_int str_of instants name mode rtype = Inr s0 \<and>
          step e s0 f0 = Inl AttributeError) \<and>
   step e (close s1) f1 = Inl AttributeError \<and>
   (step e s f = Inr (res, s') \<and> res_done res \<and> early_stop_monitor s \<noteq> None \<longrightarrow>
      (\<exists>res2 s2. step e s' f = Inr (res2, s2)))"
proof (intro conjI impI)
  show "\<exists>s0. init sha1_int str_of instants name mode rtype = Inr s0 \<and>
          step e s0 f0 = Inl AttributeError"
    by (simp add: init_def step_before_reset)
  show "step e (close s1) f1 = Inl AttributeError"
    by (simp add: close_def step_before_reset)
  assume "step e s f = Inr (res, s') \<and> res_done res \<and> early_stop_monitor s \<noteq> None"
  then have "\<not> isl (step e s' f)"
    using step_again by blast
  then show "\<exists>res2 s2. step e s' f = Inr (res2, s2)"
    by (cases "step e s' f") auto
qed

theorem step_outside_episode_witness:
  "step three_lane_road (mid_episode 9 (9 / 10)) (frame_at 0 4 0 True) =
     Inr (\<lparr> res_chauffeur_command = LANE_FOLLOW, res_reward = 11 / 10, res_done = True,
            res_info = \<lparr> info_road = ''US101'', info_timeslice = ''0750am-0805am'',
                         info_frame = 150, info_dataset_mode = TRAIN, info_reward_type = DENSE,
                         info_target_alignment_counter = 10 \<rparr> \<rparr>,
          (mid_episode 10 1) \<lparr> previous_chauffeur_command := Some LANE_FOLLOW \<rparr>) \<and>
   early_stop_monitor (mid_episode 9 (9 / 10)) \<noteq> None \<and>
   (\<exists>s0. init char_sum instant_key [left_change] ''US101'' TRAIN DENSE = Inr s0 \<and>
          step three_lane_road s0 (frame_at 0 0 0 False) = Inl AttributeError) \<and>
   step three_lane_road (close (mid_episode 9 (9 / 10))) (frame_at 0 4 0 True) =
     Inl AttributeError \<and>
   (\<exists>res2 s2. step three_lane_road
                 ((mid_episode 10 1) \<lparr> previous_chauffeur_command := Some LANE_FOLLOW \<rparr>)
                 (frame_at 0 4 0 True) = Inr (res2, s2))"
proof -
  note h1 = step_on_target_complete
  have h2: "early_stop_monitor (mid_episode 9 (9 / 10)) \<noteq> None"
    by (simp add: mid_episode_def)
  have h3: "res_done \<lparr> res_chauffeur_command = LANE_FOLLOW, res_reward = 11 / 10, res_done = True,
            res_info = \<lparr> info_road = ''US101'', info_timeslice = ''0750am-0805am'',
                         info_frame = 150, info_dataset_mode = TRAIN, info_reward_type = DENSE,
                         info_target_alignment_counter = 10 \<rparr> \<rparr>"
    by simp
  from step_outside_episode[where sha1_int = char_sum and str_of = instant_key
      and instants = "[left_change]" and name = "''US101''" and mode = TRAIN and rtype = DENSE
      and e = three_lane_road and ?f0.0 = "frame_at 0 0 0 False"
      and ?s1.0 = "mid_episode 9 (9 / 10)" and ?f1.0 = "frame_at 0 4 0 True"
      and s = "mid_episode 9 (9 / 10)" and f = "frame_at 0 4 0 True"
      and res = "\<lparr> res_chauffeur_command = LANE_FOLLOW, res_reward = 11 / 10, res_done = True,
            res_info = \<lparr> info_road = ''US101'', info_timeslice = ''0750am-0805am'',
                         info_frame = 150, info_dataset_mode = TRAIN, info_reward_type = DENSE,
                         info_target_alignment_counter = 10 \<rparr> \<rparr>"
      and s' = "(mid_episode 10 1) \<lparr> previous_chauffeur_command := Some LANE_FOLLOW \<rparr>"]
    h1 h2 h3
  show ?thesis
    by blast
qed

end
